theory Spec2Isabelle
  imports Main "HOL-Library.Option_ord" "HOL-Library.List_Lexorder" "HOL-Library.Char_ord"
begin

section \<open>The store: tables as lists of rows\<close>

text \<open>
  The handlers talk to a MySQL store. A table is the list of its rows, a nullable column
  is an \<open>option\<close>, \<open>NOW()\<close> is a parameter \<open>now\<close> of every handler that uses it,
  and the status columns are the strings the source compares them with.
  Column names carry the table as a prefix, since two records cannot share a field name:
  \<open>r_\<close> reservations, \<open>sec_\<close> parking_section, \<open>spot_\<close> parking_spot,
  \<open>v_\<close> vehicles, \<open>u_\<close> users, \<open>pa_\<close> parking_area.
  The occupancy counters are signed integers (MySQL's INT), so \<open>parked_count - 1\<close> on a
  stored 0 is -1; arithmetic on NULL is NULL.
\<close>

record reservation =
  r_reservation_id :: nat
  r_user_id :: nat
  r_vehicle_id :: "nat option"
  r_parking_spots_id :: nat
  r_parking_section_id :: "nat option"
  r_spot_number :: "string option"
  r_time_stamp :: nat
  r_start_time :: "nat option"
  r_end_time :: "nat option"
  r_booking_status :: string
  r_QR :: string
  r_qr_key :: "string option"

record psection =
  sec_parking_section_id :: nat
  sec_parking_area_id :: nat
  sec_section_name :: string
  sec_capacity :: "int option"
  sec_parked_count :: "int option"
  sec_reserved_count :: "int option"
  sec_section_mode :: string
  sec_vehicle_type :: string
  sec_status :: "string option"

record spot =
  spot_parking_spot_id :: nat
  spot_parking_section_id :: nat
  spot_spot_number :: string
  spot_spot_type :: string
  spot_status :: string

record vehicle =
  v_vehicle_id :: nat
  v_user_id :: nat
  v_plate_number :: string
  v_vehicle_type :: string
  v_brand :: "string option"
  v_color :: "string option"

record user =
  u_user_id :: nat
  u_email :: string
  u_first_name :: string
  u_last_name :: string

record area =
  pa_parking_area_id :: nat
  pa_parking_area_name :: string
  pa_location :: string

record db =
  reservations :: "reservation list"
  parking_section :: "psection list"
  parking_spot :: "spot list"
  vehicles :: "vehicle list"
  users :: "user list"
  parking_area :: "area list"

text \<open>
  A failed request: the HTTP status, the message and the \<open>errorCode\<close> field of the
  JSON body (absent in most handlers).
\<close>

datatype failure = Failure (http_status: nat) (message: string) (errorCode: "string option")

text \<open>\<open>x || 0\<close> on a numeric column: NULL and 0 both give 0.\<close>

definition or0 :: "int option \<Rightarrow> int" where
  "or0 x = (case x of None \<Rightarrow> 0 | Some v \<Rightarrow> v)"

text \<open>\<open>r.booking_status IN ('reserved', 'active')\<close>\<close>

definition live :: "reservation \<Rightarrow> bool" where
  "live r \<longleftrightarrow> r_booking_status r = ''reserved'' \<or> r_booking_status r = ''active''"

section \<open>SQL and JavaScript helpers\<close>

text \<open>\<open>UPDATE t SET ... WHERE P\<close>: every matching row is rewritten; \<open>affectedRows\<close> counts them.\<close>

definition update_where :: "('a \<Rightarrow> bool) \<Rightarrow> ('a \<Rightarrow> 'a) \<Rightarrow> 'a list \<Rightarrow> 'a list" where
  "update_where P f rows = map (\<lambda>r. if P r then f r else r) rows"

definition affectedRows :: "('a \<Rightarrow> bool) \<Rightarrow> 'a list \<Rightarrow> nat" where
  "affectedRows P rows = length (filter P rows)"

text \<open>\<open>insertId\<close> of an AUTO_INCREMENT key: one more than the largest id in the table.\<close>

definition insertId :: "nat list \<Rightarrow> nat" where
  "insertId ids = Suc (fold max ids 0)"

text \<open>SQL arithmetic on a nullable counter.\<close>

definition sql_add :: "int option \<Rightarrow> int \<Rightarrow> int option" where
  "sql_add c k = map_option (\<lambda>v. v + k) c"

text \<open>Decimal rendering of a number inside a template string.\<close>

fun show_nat :: "nat \<Rightarrow> string" where
  "show_nat n = (if n < 10 then [char_of (48 + n)]
                 else show_nat (n div 10) @ [char_of (48 + n mod 10)])"

declare show_nat.simps [simp del]

definition show_int :: "int \<Rightarrow> string" where
  "show_int i = (if i < 0 then CHR ''-'' # show_nat (nat (- i)) else show_nat (nat i))"


definition is_space :: "char \<Rightarrow> bool" where
  "is_space c \<longleftrightarrow> (of_char c :: nat) \<in> {9, 10, 11, 12, 13, 32}"

definition startsWith :: "string \<Rightarrow> char \<Rightarrow> bool" where
  "startsWith s c = (case s of [] \<Rightarrow> False | x # _ \<Rightarrow> x = c)"



section \<open>GET /areas/:areaId/capacity-status\<close>

text \<open>
  The response entry of one section. \<open>utilizationRate\<close> is a floating-point string
  (\<open>toFixed(1)\<close>) and is left out of the record.
\<close>

record capacity_entry =
  ce_sectionId :: nat
  ce_sectionName :: string
  ce_vehicleType :: string
  ce_totalCapacity :: int
  ce_availableCapacity :: int
  ce_parkedCount :: int
  ce_reservedCount :: int
  ce_totalUsed :: int
  ce_status :: string
  ce_isUserBooked :: bool

text \<open>The \<open>is_user_booked\<close> column of the query: an EXISTS over the reservations.\<close>

definition is_user_booked :: "db \<Rightarrow> nat \<Rightarrow> psection \<Rightarrow> bool" where
  "is_user_booked d userId ps \<longleftrightarrow>
     (\<exists>r2 \<in> set (reservations d).
        r_parking_section_id r2 = Some (sec_parking_section_id ps)
        \<and> r_user_id r2 = userId \<and> live r2)"

text \<open>The body of \<open>sections.map(section => ...)\<close>.\<close>

definition capacity_entry_of :: "db \<Rightarrow> nat \<Rightarrow> psection \<Rightarrow> capacity_entry" where
  "capacity_entry_of d userId sect =
     (let totalCapacity = or0 (sec_capacity sect);
          parkedCount = or0 (sec_parked_count sect);
          reservedCount = or0 (sec_reserved_count sect);
          totalUsed = parkedCount + reservedCount;
          availableCapacity = max 0 (totalCapacity - totalUsed)
      in \<lparr> ce_sectionId = sec_parking_section_id sect,
           ce_sectionName = sec_section_name sect,
           ce_vehicleType = sec_vehicle_type sect,
           ce_totalCapacity = totalCapacity,
           ce_availableCapacity = availableCapacity,
           ce_parkedCount = parkedCount,
           ce_reservedCount = reservedCount,
           ce_totalUsed = totalUsed,
           ce_status = (case sec_status sect of None \<Rightarrow> ''available''
                        | Some st \<Rightarrow> if st = [] then ''available'' else st),
           ce_isUserBooked = is_user_booked d userId sect \<rparr>)"

text \<open>
  The handler: 400 when the caller's id is falsy, else the motorcycle sections of the
  area ordered by name, each mapped to its entry. Route parameters are non-empty
  strings, so \<open>!areaId\<close> is never true.
\<close>

definition capacity_status :: "db \<Rightarrow> nat \<Rightarrow> nat \<Rightarrow> failure + capacity_entry list" where
  "capacity_status d userId areaId =
     (if userId = 0 then Inl (Failure 400 ''Missing required parameters'' None)
      else
        let sections = sort_key sec_section_name
              (filter (\<lambda>ps. sec_parking_area_id ps = areaId
                             \<and> sec_vehicle_type ps = ''motorcycle'') (parking_section d))
        in Inr (map (capacity_entry_of d userId) sections))"

section \<open>POST /sections/:sectionId/reserve\<close>

record reserve_result =
  rr_reservationId :: nat
  rr_sectionName :: string
  rr_remainingCapacity :: int

text \<open>
  The handler runs in one transaction: a failure leaves the store as it was. The token it
  stores is \<open>CAP-<Date.now()>-<userId>\<close>, as QR and as qr_key; the clock is read
  once for each of the two, so \<open>dateNow\<close> is the reading for QR and \<open>dateNow2\<close> the
  later one for qr_key. \<open>end_time\<close> is 24 hours after \<open>now\<close> (in seconds).
\<close>

definition reserve_capacity ::
  "db \<Rightarrow> nat \<Rightarrow> nat \<Rightarrow> nat \<Rightarrow> nat \<Rightarrow> nat \<Rightarrow> (failure + reserve_result) \<times> db" where
  "reserve_capacity d now dateNow dateNow2 userId sectionId =
     (case filter (\<lambda>ps. sec_parking_section_id ps = sectionId
                        \<and> sec_vehicle_type ps = ''motorcycle'') (parking_section d) of
        [] \<Rightarrow> (Inl (Failure 404 ''Section not found or not capacity-based'' None), d)
      | sect # _ \<Rightarrow>
          let totalUsed = or0 (sec_parked_count sect) + or0 (sec_reserved_count sect);
              availableCapacity = max 0 (or0 (sec_capacity sect) - totalUsed)
          in if availableCapacity \<le> 0
             then (Inl (Failure 400 ''No available capacity in this section'' None), d)
             else
               let rid = insertId (map r_reservation_id (reservations d));
                   cap = ''CAP-'' @ show_nat dateNow @ ''-'' @ show_nat userId;
                   cap2 = ''CAP-'' @ show_nat dateNow2 @ ''-'' @ show_nat userId;
                   row = \<lparr> r_reservation_id = rid, r_user_id = userId, r_vehicle_id = None,
                           r_parking_spots_id = sectionId, r_parking_section_id = None,
                           r_spot_number = None, r_time_stamp = now,
                           r_start_time = Some now, r_end_time = Some (now + 86400),
                           r_booking_status = ''reserved'', r_QR = cap, r_qr_key = Some cap2 \<rparr>
               in (Inr \<lparr> rr_reservationId = rid,
                          rr_sectionName = sec_section_name sect,
                          rr_remainingCapacity = availableCapacity - 1 \<rparr>,
                   d\<lparr> reservations := reservations d @ [row],
                      parking_section :=
                        update_where (\<lambda>ps. sec_parking_section_id ps = sectionId)
                          (\<lambda>ps. ps\<lparr> sec_reserved_count := sql_add (sec_reserved_count ps) 1 \<rparr>)
                          (parking_section d) \<rparr>))"

section \<open>POST /sections/:sectionId/confirm-parking\<close>

text \<open>
  \<open>reservationId\<close> is read from the request body; when it is missing the driver refuses
  the undefined bind parameter, the transaction is rolled back and the outer handler
  answers 500.
\<close>

definition confirm_parking ::
  "db \<Rightarrow> nat \<Rightarrow> nat \<Rightarrow> nat \<Rightarrow> nat option \<Rightarrow> (failure + string) \<times> db" where
  "confirm_parking d now userId sectionId reservationId =
     (case reservationId of
        None \<Rightarrow> (Inl (Failure 500 ''Failed to confirm parking'' None), d)
      | Some rid \<Rightarrow>
          let P = (\<lambda>r. r_reservation_id r = rid \<and> r_user_id r = userId
                         \<and> r_booking_status r = ''reserved'')
          in if affectedRows P (reservations d) = 0
             then (Inl (Failure 404 ''Reservation not found or already confirmed'' None), d)
             else (Inr ''Parking confirmed successfully'',
                   d\<lparr> reservations :=
                        update_where P
                          (\<lambda>r. r\<lparr> r_booking_status := ''active'', r_start_time := Some now \<rparr>)
                          (reservations d),
                      parking_section :=
                        update_where (\<lambda>ps. sec_parking_section_id ps = sectionId)
                          (\<lambda>ps. ps\<lparr> sec_reserved_count := sql_add (sec_reserved_count ps) (- 1),
                                     sec_parked_count := sql_add (sec_parked_count ps) 1 \<rparr>)
                          (parking_section d) \<rparr>))"

section \<open>POST /sections/:sectionId/end-reservation\<close>

definition end_reservation ::
  "db \<Rightarrow> nat \<Rightarrow> nat \<Rightarrow> nat \<Rightarrow> (failure + string) \<times> db" where
  "end_reservation d now userId sectionId =
     (let P = (\<lambda>r. r_parking_spots_id r = sectionId \<and> r_user_id r = userId
                    \<and> r_booking_status r = ''active'')
      in if affectedRows P (reservations d) = 0
         then (Inl (Failure 404 ''No active reservation found for this user in this section'' None), d)
         else (Inr ''Capacity reservation ended successfully'',
               d\<lparr> reservations :=
                    update_where P
                      (\<lambda>r. r\<lparr> r_booking_status := ''completed'', r_end_time := Some now \<rparr>)
                      (reservations d),
                  parking_section :=
                    update_where (\<lambda>ps. sec_parking_section_id ps = sectionId)
                      (\<lambda>ps. ps\<lparr> sec_parked_count := sql_add (sec_parked_count ps) (- 1) \<rparr>)
                      (parking_section d) \<rparr>))"

section \<open>GET /sections/:sectionId/spots\<close>











section \<open>POST /sections/:sectionId/spots/:spotNumber/assign\<close>

record booking =
  bk_reservationId :: nat
  bk_qrCode :: string
  bk_qrKey :: string
  bk_status :: string

text \<open>
  The payload of the barcode image: \<open>JSON.stringify({ qr_key: qrKey })\<close>. Quotes,
  backslashes and control characters of the key are escaped as JSON does.
\<close>

definition hex_digit :: "nat \<Rightarrow> char" where
  "hex_digit n = (if n < 10 then char_of (48 + n) else char_of (87 + n))"

definition json_escape_char :: "char \<Rightarrow> string" where
  "json_escape_char c =
     (if c = CHR 0x22 then [CHR 0x5C, CHR 0x22]
      else if c = CHR 0x5C then [CHR 0x5C, CHR 0x5C]
      else if c = CHR 0x08 then [CHR 0x5C, CHR ''b'']
      else if c = CHR 0x0C then [CHR 0x5C, CHR ''f'']
      else if c = CHR 0x0A then [CHR 0x5C, CHR ''n'']
      else if c = CHR 0x0D then [CHR 0x5C, CHR ''r'']
      else if c = CHR 0x09 then [CHR 0x5C, CHR ''t'']
      else if (of_char c :: nat) < 32
        then [CHR 0x5C, CHR ''u'', CHR ''0'', CHR ''0'',
              hex_digit (of_char c div 16), hex_digit (of_char c mod 16)]
      else [c])"

definition qr_payload :: "string \<Rightarrow> string" where
  "qr_payload qrKey =
     [CHR ''{'', CHR 0x22] @ ''qr_key'' @ [CHR 0x22, CHR '':'', CHR 0x22]
     @ concat (map json_escape_char qrKey) @ [CHR 0x22, CHR ''}'']"

text \<open>\<open>UPDATE reservations SET QR = ? WHERE reservation_id = ?\<close>\<close>

definition set_QR :: "nat \<Rightarrow> string \<Rightarrow> reservation list \<Rightarrow> reservation list" where
  "set_QR reservationId url rows =
     update_where (\<lambda>r. r_reservation_id r = reservationId) (\<lambda>r. r\<lparr> r_QR := url \<rparr>) rows"

text \<open>
  \<open>qrKey\<close> is the value \<open>uuid.v4()\<close> returns and \<open>toDataURL\<close> the image encoder of the
  qrcode library; both are parameters. The statements run outside a transaction. The
  fallback that adds a missing \<open>qr_key\<close> column and repeats the INSERT changes the schema
  only; the store modelled here has the column.
\<close>

definition assign ::
  "db \<Rightarrow> nat \<Rightarrow> (string \<Rightarrow> string) \<Rightarrow> string \<Rightarrow> nat \<Rightarrow> nat \<Rightarrow> string \<Rightarrow> nat
     \<Rightarrow> (failure + booking) \<times> db" where
  "assign d now toDataURL qrKey userId sectionId spotNumber vehicleId =
     (if userId = 0 \<or> vehicleId = 0
      then (Inl (Failure 400 ''Missing required parameters'' None), d)
      else case filter (\<lambda>ps. sec_parking_section_id ps = sectionId
                             \<and> sec_vehicle_type ps = ''motorcycle'') (parking_section d) of
        [] \<Rightarrow> (Inl (Failure 404 ''Motorcycle section not found'' None), d)
      | sectionData # _ \<Rightarrow>
          if filter (\<lambda>v. v_vehicle_id v = vehicleId \<and> v_user_id v = userId) (vehicles d) = []
          then (Inl (Failure 404 ''Vehicle not found'' None), d)
          else if filter (\<lambda>r. r_user_id r = userId \<and> r_booking_status r = ''active'')
                    (reservations d) \<noteq> []
          then (Inl (Failure 400 ''You already have an active parking session'' None), d)
          else if filter (\<lambda>r. r_parking_section_id r = Some sectionId
                               \<and> r_spot_number r = Some spotNumber \<and> live r)
                    (reservations d) \<noteq> []
          then (Inl (Failure 400 ''Spot is already occupied or reserved'' None), d)
          else
            let reservationId = insertId (map r_reservation_id (reservations d));
                qrCodeDataURL = toDataURL (qr_payload qrKey);
                row = \<lparr> r_reservation_id = reservationId, r_user_id = userId,
                        r_vehicle_id = Some vehicleId, r_parking_spots_id = 0,
                        r_parking_section_id = Some sectionId,
                        r_spot_number = Some spotNumber, r_time_stamp = now,
                        r_start_time = None, r_end_time = None,
                        r_booking_status = ''reserved'', r_QR = [],
                        r_qr_key = Some qrKey \<rparr>
            in (Inr \<lparr> bk_reservationId = reservationId, bk_qrCode = qrCodeDataURL,
                       bk_qrKey = qrKey, bk_status = ''reserved'' \<rparr>,
                d\<lparr> reservations := set_QR reservationId qrCodeDataURL (reservations d @ [row]),
                   parking_section :=
                     update_where (\<lambda>ps. sec_parking_section_id ps = sectionId)
                       (\<lambda>ps. ps\<lparr> sec_parked_count := sql_add (sec_parked_count ps) 1 \<rparr>)
                       (parking_section d) \<rparr>))"

text \<open>
  The shape of the value \<open>uuid.v4()\<close> returns: 36 characters, lower-case hexadecimal
  digits with a hyphen at the positions 8, 13, 18 and 23.
\<close>

definition is_uuid :: "string \<Rightarrow> bool" where
  "is_uuid s \<longleftrightarrow>
     length s = 36
     \<and> list_all (\<lambda>i. if i \<in> {8, 13, 18, 23} then s ! i = CHR ''-''
                      else s ! i \<in> set ''0123456789abcdef'') [0 ..< 36]"

section \<open>POST /sections/:sectionId/spots/:spotNumber/guest-assign\<close>

record guest_result =
  gr_sectionId :: nat
  gr_spotNumber :: string
  gr_reservationId :: nat
  gr_sectionName :: string

text \<open>
  \<open>guestEmail\<close> is the random address the handler makes up for the placeholder user.
  The password, user type and balance columns of the new user row are not modelled. The
  INSERT of the reservation names no \<open>qr_key\<close> column, so the stored key is NULL.
\<close>

definition guest_assign ::
  "db \<Rightarrow> nat \<Rightarrow> string \<Rightarrow> nat \<Rightarrow> nat \<Rightarrow> string \<Rightarrow> string \<Rightarrow> string
     \<Rightarrow> string option \<Rightarrow> string option \<Rightarrow> (failure + guest_result) \<times> db" where
  "guest_assign d now guestEmail userId sectionId spotNumber guestName plateNumber brand color =
     (if userId = 0 \<or> guestName = [] \<or> plateNumber = []
      then (Inl (Failure 400 ''Missing required parameters'' None), d)
      else case filter (\<lambda>ps. sec_parking_section_id ps = sectionId
                             \<and> sec_vehicle_type ps = ''motorcycle'') (parking_section d) of
        [] \<Rightarrow> (Inl (Failure 404 ''Motorcycle section not found'' None), d)
      | sectionData # _ \<Rightarrow>
          if filter (\<lambda>r. r_parking_section_id r = Some sectionId
                          \<and> r_spot_number r = Some spotNumber
                          \<and> r_booking_status r = ''active'') (reservations d) \<noteq> []
          then (Inl (Failure 400 ''Spot is already occupied'' None), d)
          else
            let guestUserId = insertId (map u_user_id (users d));
                vehicleId = insertId (map v_vehicle_id (vehicles d));
                reservationId = insertId (map r_reservation_id (reservations d));
                orNull = (\<lambda>x. case x of None \<Rightarrow> None | Some s \<Rightarrow> if s = [] then None else Some s);
                row = \<lparr> r_reservation_id = reservationId, r_user_id = guestUserId,
                        r_vehicle_id = Some vehicleId, r_parking_spots_id = 0,
                        r_parking_section_id = Some sectionId,
                        r_spot_number = Some spotNumber, r_time_stamp = now,
                        r_start_time = Some now, r_end_time = None,
                        r_booking_status = ''active'', r_QR = [],
                        r_qr_key = None \<rparr>
            in (Inr \<lparr> gr_sectionId = sectionId, gr_spotNumber = spotNumber,
                       gr_reservationId = reservationId,
                       gr_sectionName = sec_section_name sectionData \<rparr>,
                d\<lparr> users := users d @ [\<lparr> u_user_id = guestUserId, u_email = guestEmail,
                                         u_first_name = guestName, u_last_name = ''Guest'' \<rparr>],
                   vehicles := vehicles d @ [\<lparr> v_vehicle_id = vehicleId, v_user_id = guestUserId,
                                               v_plate_number = plateNumber,
                                               v_vehicle_type = ''motorcycle'',
                                               v_brand = orNull brand, v_color = orNull color \<rparr>],
                   reservations := reservations d @ [row],
                   parking_section :=
                     update_where (\<lambda>ps. sec_parking_section_id ps = sectionId)
                       (\<lambda>ps. ps\<lparr> sec_parked_count := sql_add (sec_parked_count ps) 1 \<rparr>)
                       (parking_section d) \<rparr>))"

section \<open>POST /sections/:sectionId/spots/:spotNumber/release\<close>

definition release ::
  "db \<Rightarrow> nat \<Rightarrow> nat \<Rightarrow> nat \<Rightarrow> string \<Rightarrow> (failure + string) \<times> db" where
  "release d now userId sectionId spotNumber =
     (let P = (\<lambda>r. r_parking_section_id r = Some sectionId
                    \<and> r_spot_number r = Some spotNumber
                    \<and> r_user_id r = userId
                    \<and> r_booking_status r = ''active'')
      in if affectedRows P (reservations d) = 0
         then (Inl (Failure 404 ''No active reservation found for this spot'' None), d)
         else (Inr ''Successfully released parking spot'',
               d\<lparr> reservations :=
                    update_where P
                      (\<lambda>r. r\<lparr> r_booking_status := ''completed'', r_end_time := Some now \<rparr>)
                      (reservations d),
                  parking_section :=
                    update_where (\<lambda>ps. sec_parking_section_id ps = sectionId)
                      (\<lambda>ps. ps\<lparr> sec_parked_count := sql_add (sec_parked_count ps) (- 1) \<rparr>)
                      (parking_section d) \<rparr>))"

section \<open>POST /book\<close>

text \<open>\<open>toLowerCase()\<close> on the ASCII letters.\<close>

definition to_lower_char :: "char \<Rightarrow> char" where
  "to_lower_char c =
     (let n = (of_char c :: nat) in if 65 \<le> n \<and> n \<le> 90 then char_of (n + 32) else c)"

definition toLowerCase :: "string \<Rightarrow> string" where
  "toLowerCase s = map to_lower_char s"

text \<open>
  \<open>(ps.capacity - ps.parked_count - ps.reserved_count) > 0\<close> and
  \<open>ps.status != 'unavailable'\<close> in a WHERE clause: a NULL operand makes the comparison
  NULL, and the row is not selected.
\<close>

definition sql_has_capacity :: "psection \<Rightarrow> bool" where
  "sql_has_capacity ps =
     (case (sec_capacity ps, sec_parked_count ps, sec_reserved_count ps) of
        (Some c, Some p, Some r) \<Rightarrow> c - p - r > 0
      | _ \<Rightarrow> False)"

definition sql_not_unavailable :: "psection \<Rightarrow> bool" where
  "sql_not_unavailable ps =
     (case sec_status ps of None \<Rightarrow> False | Some st \<Rightarrow> st \<noteq> ''unavailable'')"

text \<open>
  The row \<open>bookMotorcycleSection\<close> inserts: the dummy spot 0, the section, and a
  display label made of the section name and the reserved count plus one. The QR column
  first holds the key itself.
\<close>

definition section_row ::
  "psection \<Rightarrow> nat \<Rightarrow> nat \<Rightarrow> string \<Rightarrow> nat \<Rightarrow> nat \<Rightarrow> reservation" where
  "section_row assignedSection insertedId now qrKey userId vehicleId =
     (let spotNumber = sec_section_name assignedSection @ ''-''
                       @ show_int (or0 (sec_reserved_count assignedSection) + 1)
      in \<lparr> r_reservation_id = insertedId, r_user_id = userId,
           r_vehicle_id = Some vehicleId, r_parking_spots_id = 0,
           r_parking_section_id = Some (sec_parking_section_id assignedSection),
           r_spot_number = Some spotNumber, r_time_stamp = now,
           r_start_time = None, r_end_time = None,
           r_booking_status = ''reserved'', r_QR = qrKey,
           r_qr_key = Some qrKey \<rparr>)"

text \<open>
  The helper \<open>bookMotorcycleSection\<close>: one transaction for the INSERT and the counter,
  then the QR image is written to the row.
\<close>

definition bookMotorcycleSection ::
  "db \<Rightarrow> nat \<Rightarrow> (string \<Rightarrow> string) \<Rightarrow> string \<Rightarrow> nat \<Rightarrow> nat \<Rightarrow> nat \<Rightarrow> nat
     \<Rightarrow> (failure + booking) \<times> db" where
  "bookMotorcycleSection d now toDataURL qrKey userId vehicleId spotId areaId =
     (case filter (\<lambda>ps. sec_parking_section_id ps = spotId
                        \<and> sec_parking_area_id ps = areaId
                        \<and> sec_vehicle_type ps = ''motorcycle''
                        \<and> sec_section_mode ps = ''capacity_only''
                        \<and> sql_has_capacity ps
                        \<and> sql_not_unavailable ps) (parking_section d) of
        [] \<Rightarrow> (Inl (Failure 400
                        ''Recommended section is no longer available or is full/unavailable''
                        (Some ''SECTION_NOT_AVAILABLE'')), d)
      | assignedSection # _ \<Rightarrow>
          let insertedId = insertId (map r_reservation_id (reservations d));
              row = section_row assignedSection insertedId now qrKey userId vehicleId;
              qrCodeDataURL = toDataURL (qr_payload qrKey)
          in (Inr \<lparr> bk_reservationId = insertedId, bk_qrCode = qrCodeDataURL,
                     bk_qrKey = qrKey, bk_status = ''reserved'' \<rparr>,
              d\<lparr> reservations := set_QR insertedId qrCodeDataURL (reservations d @ [row]),
                 parking_section :=
                   update_where
                     (\<lambda>ps. sec_parking_section_id ps = sec_parking_section_id assignedSection)
                     (\<lambda>ps. ps\<lparr> sec_reserved_count := sql_add (sec_reserved_count ps) 1 \<rparr>)
                     (parking_section d) \<rparr>))"

text \<open>
  The checks of the handler up to the conditional update: the request fields (a missing
  field and 0 are both falsy), the vehicle's owner, the redirect of motorcycles, the area,
  then, inside the transaction, the row read \<open>FOR UPDATE\<close> and the type mapping.
\<close>

datatype checked = Motorcycle vehicle | Discrete vehicle spot

definition book_checks :: "db \<Rightarrow> nat \<Rightarrow> nat \<Rightarrow> nat \<Rightarrow> nat \<Rightarrow> failure + checked" where
  "book_checks d userId vehicleId spotId areaId =
     (if vehicleId = 0 \<or> spotId = 0 \<or> areaId = 0
      then Inl (Failure 400 ''Vehicle ID, spot ID, and area ID are required'' None)
      else if filter (\<lambda>v. v_vehicle_id v = vehicleId \<and> v_user_id v = userId) (vehicles d) = []
      then Inl (Failure 400 ''Vehicle not found or does not belong to user'' None)
      else case filter (\<lambda>v. v_vehicle_id v = vehicleId) (vehicles d) of
        [] \<Rightarrow> Inl (Failure 400 ''Vehicle not found'' None)
      | vehicle # _ \<Rightarrow>
          if toLowerCase (v_vehicle_type vehicle) = ''motorcycle'' then Inr (Motorcycle vehicle)
          else if filter (\<lambda>a. pa_parking_area_id a = areaId) (parking_area d) = []
          then Inl (Failure 400 ''Parking area not found'' None)
          else case filter (\<lambda>s. spot_parking_spot_id s = spotId) (parking_spot d) of
            [] \<Rightarrow> Inl (Failure 400 ''Parking spot not found'' None)
          | spot # _ \<Rightarrow>
              if spot_status spot \<noteq> ''available''
              then Inl (Failure 400 ''Parking spot is no longer available''
                          (Some ''SPOT_UNAVAILABLE''))
              else
                let vehicleType = v_vehicle_type vehicle;
                    spotType = spot_spot_type spot;
                    expectedSpotType =
                      (if toLowerCase vehicleType = ''bicycle'' then ''bike''
                       else if toLowerCase vehicleType = ''ebike'' then ''bike''
                       else toLowerCase vehicleType)
                in if expectedSpotType \<noteq> toLowerCase spotType
                   then Inl (Failure 400
                          (''This parking spot is for '' @ spotType @ ''s only. Your vehicle is a ''
                           @ vehicleType @ ''.'') (Some ''VEHICLE_TYPE_MISMATCH''))
                   else Inr (Discrete vehicle spot))"

text \<open>
  The query for the spot's section, after the update:
  \<open>FROM parking_spot ps JOIN parking_section psec ON ... WHERE ps.parking_spot_id = ?\<close>.
\<close>

definition spotDetails_of :: "psection list \<Rightarrow> spot list \<Rightarrow> nat \<Rightarrow> (spot \<times> psection) list" where
  "spotDetails_of sections spots spotId =
     [(ps, psec). ps \<leftarrow> spots, psec \<leftarrow> sections,
                  spot_parking_section_id ps = sec_parking_section_id psec,
                  spot_parking_spot_id ps = spotId]"

text \<open>
  The row of the INSERT: the spot number is \<open>section-number\<close> and the section id
  that of the spot, both NULL when the join found nothing; the start time is NULL and
  the QR image is written by the UPDATE that follows.
\<close>

definition book_row ::
  "(spot \<times> psection) list \<Rightarrow> nat \<Rightarrow> nat \<Rightarrow> string \<Rightarrow> nat \<Rightarrow> nat \<Rightarrow> nat \<Rightarrow> reservation" where
  "book_row spotDetails reservationId now qrKey userId vehicleId spotId =
     (let spotNumber = (case spotDetails of [] \<Rightarrow> None
                        | (ps, psec) # _ \<Rightarrow>
                            Some (sec_section_name psec @ ''-'' @ spot_spot_number ps));
          parkingSectionId = (case spotDetails of [] \<Rightarrow> None
                              | (ps, psec) # _ \<Rightarrow> Some (spot_parking_section_id ps))
      in \<lparr> r_reservation_id = reservationId, r_user_id = userId,
           r_vehicle_id = Some vehicleId, r_parking_spots_id = spotId,
           r_parking_section_id = parkingSectionId,
           r_spot_number = spotNumber, r_time_stamp = now,
           r_start_time = None, r_end_time = None,
           r_booking_status = ''reserved'', r_QR = [],
           r_qr_key = Some qrKey \<rparr>)"

text \<open>
  The conditional update and what follows it, on the store the update sees. A rollback
  undoes nothing here, since the failing branch has written nothing.
\<close>

definition book_reserve ::
  "db \<Rightarrow> nat \<Rightarrow> (string \<Rightarrow> string) \<Rightarrow> string \<Rightarrow> nat \<Rightarrow> nat \<Rightarrow> nat
     \<Rightarrow> (failure + booking) \<times> db" where
  "book_reserve d now toDataURL qrKey userId vehicleId spotId =
     (let P = (\<lambda>s. spot_parking_spot_id s = spotId \<and> spot_status s = ''available'')
      in if affectedRows P (parking_spot d) = 0
         then (Inl (Failure 400
                 ''Parking spot was just booked by another user. Please try a different spot.''
                 (Some ''SPOT_ALREADY_BOOKED'')), d)
         else
           let spots = update_where P (\<lambda>s. s\<lparr> spot_status := ''reserved'' \<rparr>) (parking_spot d);
               spotDetails = spotDetails_of (parking_section d) spots spotId;
               reservationId = insertId (map r_reservation_id (reservations d));
               row = book_row spotDetails reservationId now qrKey userId vehicleId spotId;
               qrCodeDataURL = toDataURL (qr_payload qrKey)
           in (Inr \<lparr> bk_reservationId = reservationId, bk_qrCode = qrCodeDataURL,
                      bk_qrKey = qrKey, bk_status = ''reserved'' \<rparr>,
               d\<lparr> parking_spot := spots,
                  reservations := set_QR reservationId qrCodeDataURL (reservations d @ [row]) \<rparr>))"

text \<open>
  The handler. \<open>others\<close> is what other connections commit between the locking read and
  the conditional update: the identity when the row lock is honoured, anything else when
  it is not (a table without row locks ignores \<open>FOR UPDATE\<close>). The conditional update
  and everything after it run on \<open>others d\<close>.
\<close>

definition book ::
  "db \<Rightarrow> (db \<Rightarrow> db) \<Rightarrow> nat \<Rightarrow> (string \<Rightarrow> string) \<Rightarrow> string \<Rightarrow> nat \<Rightarrow> nat \<Rightarrow> nat \<Rightarrow> nat
     \<Rightarrow> (failure + booking) \<times> db" where
  "book d others now toDataURL qrKey userId vehicleId spotId areaId =
     (case book_checks d userId vehicleId spotId areaId of
        Inl f \<Rightarrow> (Inl f, d)
      | Inr (Motorcycle vehicle) \<Rightarrow>
          bookMotorcycleSection d now toDataURL qrKey userId vehicleId spotId areaId
      | Inr (Discrete vehicle spot) \<Rightarrow>
          book_reserve (others d) now toDataURL qrKey userId vehicleId spotId)"

text \<open>The store a successful booking of a discrete spot leaves, and the row it writes.\<close>

definition booked_spots :: "db \<Rightarrow> nat \<Rightarrow> spot list" where
  "booked_spots d spotId =
     update_where (\<lambda>s. spot_parking_spot_id s = spotId \<and> spot_status s = ''available'')
       (\<lambda>s. s\<lparr> spot_status := ''reserved'' \<rparr>) (parking_spot d)"

definition booked_row :: "db \<Rightarrow> nat \<Rightarrow> string \<Rightarrow> nat \<Rightarrow> nat \<Rightarrow> nat \<Rightarrow> reservation" where
  "booked_row d now qrKey userId vehicleId spotId =
     book_row (spotDetails_of (parking_section d) (booked_spots d spotId) spotId)
       (insertId (map r_reservation_id (reservations d))) now qrKey userId vehicleId spotId"

section \<open>GET /booking/:reservationId\<close>

text \<open>
  What \<open>JSON.parse\<close> returns; \<open>typeof\<close> is \<open>'object'\<close> for objects, arrays and null.
  The parser itself is a parameter of the handler: \<open>None\<close> when it throws.
\<close>

datatype json = JNull | JBool bool | JNumber int | JString string
  | JArray "json list" | JObject "(string \<times> json) list"

fun typeof_object :: "json \<Rightarrow> bool" where
  "typeof_object JNull = True"
| "typeof_object (JArray _) = True"
| "typeof_object (JObject _) = True"
| "typeof_object _ = False"

definition trim :: "string \<Rightarrow> string" where
  "trim s = rev (dropWhile is_space (rev (dropWhile is_space s)))"

text \<open>
  The cleaning of the stored key, and the \<open>qrKey || null\<close> of the response: an empty
  string is falsy.
\<close>

definition clean_qr_key :: "(string \<Rightarrow> json option) \<Rightarrow> string option \<Rightarrow> string option" where
  "clean_qr_key JSON_parse stored =
     (let qrKey =
        (case stored of
           None \<Rightarrow> None
         | Some k \<Rightarrow>
             if k = [] then Some k
             else
               let t = trim k
               in if startsWith t CHR ''{'' \<or> startsWith t CHR ''[''
                  then (case JSON_parse t of
                          None \<Rightarrow> None
                        | Some parsed \<Rightarrow> if typeof_object parsed then None else Some t)
                  else Some t)
      in case qrKey of None \<Rightarrow> None | Some k \<Rightarrow> if k = [] then None else Some k)"

record booking_details =
  bd_reservationId :: nat
  bd_displayName :: string
  bd_plateNumber :: string
  bd_spotNumber :: "string option"
  bd_spotType :: string
  bd_sectionName :: string
  bd_areaName :: string
  bd_bookingStatus :: string
  bd_qrCode :: string
  bd_qrKey :: "string option"

text \<open>
  A row of the three detail queries: reservation, user, vehicle, the spot number and type
  the query selects, the section and the area. The penalty lookup of completed
  reservations reads a table that is not modelled and is left out of the response.
\<close>

type_synonym detail_row = "reservation \<times> user \<times> vehicle \<times> string option \<times> string \<times> psection \<times> area"

definition details_response :: "(string \<Rightarrow> json option) \<Rightarrow> detail_row \<Rightarrow> booking_details" where
  "details_response JSON_parse row =
     (case row of (r, u, v, spot_number, spot_type, psec, pa) \<Rightarrow>
        \<lparr> bd_reservationId = r_reservation_id r,
          bd_displayName = u_first_name u @ '' '' @ u_last_name u,
          bd_plateNumber = v_plate_number v,
          bd_spotNumber = spot_number,
          bd_spotType = spot_type,
          bd_sectionName = sec_section_name psec,
          bd_areaName = pa_parking_area_name pa,
          bd_bookingStatus = r_booking_status r,
          bd_qrCode = r_QR r,
          bd_qrKey = clean_qr_key JSON_parse (r_qr_key r) \<rparr>)"

definition own_reservations :: "db \<Rightarrow> nat \<Rightarrow> nat \<Rightarrow> reservation list" where
  "own_reservations d userId reservationId =
     filter (\<lambda>r. r_reservation_id r = reservationId \<and> r_user_id r = userId) (reservations d)"

definition section_details_by_section_id :: "db \<Rightarrow> nat \<Rightarrow> nat \<Rightarrow> detail_row list" where
  "section_details_by_section_id d userId reservationId =
     [(r, u, v, r_spot_number r, ''motorcycle'', ps, pa).
        r \<leftarrow> own_reservations d userId reservationId,
        u \<leftarrow> users d, r_user_id r = u_user_id u,
        v \<leftarrow> vehicles d, r_vehicle_id r = Some (v_vehicle_id v),
        ps \<leftarrow> parking_section d, r_parking_section_id r = Some (sec_parking_section_id ps),
        pa \<leftarrow> parking_area d, sec_parking_area_id ps = pa_parking_area_id pa]"

definition section_details_by_spots_id :: "db \<Rightarrow> nat \<Rightarrow> nat \<Rightarrow> detail_row list" where
  "section_details_by_spots_id d userId reservationId =
     [(r, u, v, Some (''M1-'' @ sec_section_name ps @ ''-1''), ''motorcycle'', ps, pa).
        r \<leftarrow> own_reservations d userId reservationId,
        u \<leftarrow> users d, r_user_id r = u_user_id u,
        v \<leftarrow> vehicles d, r_vehicle_id r = Some (v_vehicle_id v),
        ps \<leftarrow> parking_section d, r_parking_spots_id r = sec_parking_section_id ps,
        pa \<leftarrow> parking_area d, sec_parking_area_id ps = pa_parking_area_id pa]"

definition spot_details :: "db \<Rightarrow> nat \<Rightarrow> nat \<Rightarrow> detail_row list" where
  "spot_details d userId reservationId =
     [(r, u, v, Some (spot_spot_number ps), spot_spot_type ps, psec, pa).
        r \<leftarrow> own_reservations d userId reservationId,
        u \<leftarrow> users d, r_user_id r = u_user_id u,
        v \<leftarrow> vehicles d, r_vehicle_id r = Some (v_vehicle_id v),
        ps \<leftarrow> parking_spot d, r_parking_spots_id r = spot_parking_spot_id ps,
        psec \<leftarrow> parking_section d, spot_parking_section_id ps = sec_parking_section_id psec,
        pa \<leftarrow> parking_area d, sec_parking_area_id psec = pa_parking_area_id pa]"

text \<open>The vehicle types the \<open>vehicleCheck\<close> query returns.\<close>

definition vehicleCheck_of :: "db \<Rightarrow> nat \<Rightarrow> nat \<Rightarrow> string list" where
  "vehicleCheck_of d userId reservationId =
     [v_vehicle_type v.
        r \<leftarrow> own_reservations d userId reservationId,
        v \<leftarrow> vehicles d, r_vehicle_id r = Some (v_vehicle_id v)]"

definition get_booking ::
  "db \<Rightarrow> (string \<Rightarrow> json option) \<Rightarrow> nat \<Rightarrow> nat \<Rightarrow> failure + booking_details" where
  "get_booking d JSON_parse userId reservationId =
     (case own_reservations d userId reservationId of
        [] \<Rightarrow> Inl (Failure 404 ''Booking not found or does not belong to user'' None)
      | reservationCheck # _ \<Rightarrow>
          let parkingSpotsId = r_parking_spots_id reservationCheck;
              vehicleCheck = vehicleCheck_of d userId reservationId;
              isMotorcycle = (case vehicleCheck of [] \<Rightarrow> False | t # _ \<Rightarrow> t = ''motorcycle'');
              found =
                (if isMotorcycle then
                   if parkingSpotsId = 0
                   then Inr (section_details_by_section_id d userId reservationId)
                   else if filter (\<lambda>ps. sec_parking_section_id ps = parkingSpotsId)
                             (parking_section d) \<noteq> []
                   then Inr (section_details_by_spots_id d userId reservationId)
                   else Inl (Failure 404 ''Motorcycle section not found'' None)
                 else Inr (spot_details d userId reservationId))
          in case found of
               Inl f \<Rightarrow> Inl f
             | Inr [] \<Rightarrow> Inl (Failure 404 ''Booking not found or does not belong to user'' None)
             | Inr (booking # _) \<Rightarrow> Inr (details_response JSON_parse booking))"

section \<open>PUT /end-session/:reservationId\<close>

definition end_session :: "db \<Rightarrow> nat \<Rightarrow> nat \<Rightarrow> nat \<Rightarrow> (failure + string) \<times> db" where
  "end_session d now userId reservationId =
     (case filter (\<lambda>r. r_reservation_id r = reservationId \<and> r_user_id r = userId)
             (reservations d) of
        [] \<Rightarrow> (Inl (Failure 404 ''Reservation not found'' None), d)
      | reservationData # _ \<Rightarrow>
          (Inr ''Parking session ended successfully'',
           d\<lparr> reservations :=
                update_where (\<lambda>r. r_reservation_id r = reservationId)
                  (\<lambda>r. r\<lparr> r_booking_status := ''completed'', r_end_time := Some now \<rparr>)
                  (reservations d),
              parking_spot :=
                update_where (\<lambda>s. spot_parking_spot_id s = r_parking_spots_id reservationData)
                  (\<lambda>s. s\<lparr> spot_status := ''available'' \<rparr>)
                  (parking_spot d) \<rparr>))"

section \<open>The occupancy invariant\<close>

text \<open>
  A section row is within capacity when its parked and reserved counts together do not
  exceed its capacity, the counters read as the handlers read them (NULL as 0).
\<close>

definition within_capacity :: "psection \<Rightarrow> bool" where
  "within_capacity ps \<longleftrightarrow>
     or0 (sec_parked_count ps) + or0 (sec_reserved_count ps) \<le> or0 (sec_capacity ps)"

section \<open>Example stores\<close>

text \<open>
  Section A of capacity 3 with one active reservation labelled A-2 (of user 2) and one
  reserved reservation labelled A-1 (of user 1).
\<close>

definition demo_section_A :: psection where
  "demo_section_A =
     \<lparr> sec_parking_section_id = 1, sec_parking_area_id = 1, sec_section_name = ''A'',
       sec_capacity = Some 3, sec_parked_count = Some 1, sec_reserved_count = Some 1,
       sec_section_mode = ''capacity_only'', sec_vehicle_type = ''motorcycle'',
       sec_status = Some ''available'' \<rparr>"

definition demo_res_active :: reservation where
  "demo_res_active =
     \<lparr> r_reservation_id = 1, r_user_id = 2, r_vehicle_id = Some 11, r_parking_spots_id = 0,
       r_parking_section_id = Some 1, r_spot_number = Some ''A-2'', r_time_stamp = 90,
       r_start_time = Some 100, r_end_time = None, r_booking_status = ''active'',
       r_QR = ''img1'', r_qr_key = Some ''k1'' \<rparr>"

definition demo_res_reserved :: reservation where
  "demo_res_reserved =
     \<lparr> r_reservation_id = 2, r_user_id = 1, r_vehicle_id = Some 12, r_parking_spots_id = 0,
       r_parking_section_id = Some 1, r_spot_number = Some ''A-1'', r_time_stamp = 200,
       r_start_time = None, r_end_time = None, r_booking_status = ''reserved'',
       r_QR = ''img2'', r_qr_key = Some ''k2'' \<rparr>"

definition demo_car :: vehicle where
  "demo_car =
     \<lparr> v_vehicle_id = 10, v_user_id = 1, v_plate_number = ''CAR-10'',
       v_vehicle_type = ''Car'', v_brand = Some ''Kia'', v_color = None \<rparr>"

definition demo_vehicles :: "vehicle list" where
  "demo_vehicles =
     [demo_car,
      \<lparr> v_vehicle_id = 11, v_user_id = 2, v_plate_number = ''MC-11'',
         v_vehicle_type = ''motorcycle'', v_brand = Some ''Honda'', v_color = None \<rparr>,
      \<lparr> v_vehicle_id = 12, v_user_id = 1, v_plate_number = ''MC-12'',
         v_vehicle_type = ''motorcycle'', v_brand = None, v_color = None \<rparr>]"

definition demo_users :: "user list" where
  "demo_users =
     [\<lparr> u_user_id = 1, u_email = ''ana@x'', u_first_name = ''Ana'', u_last_name = ''Cruz'' \<rparr>,
      \<lparr> u_user_id = 2, u_email = ''ben@x'', u_first_name = ''Ben'', u_last_name = ''Diaz'' \<rparr>]"

definition demo_areas :: "area list" where
  "demo_areas =
     [\<lparr> pa_parking_area_id = 1, pa_parking_area_name = ''Main'', pa_location = ''North'' \<rparr>]"

definition demo_db :: db where
  "demo_db =
     \<lparr> reservations = [demo_res_active, demo_res_reserved],
       parking_section = [demo_section_A],
       parking_spot = [],
       vehicles = demo_vehicles, users = demo_users, parking_area = demo_areas \<rparr>"

text \<open>The same store after reservation 2 was confirmed at time 500.\<close>

definition demo_db_confirmed :: db where
  "demo_db_confirmed =
     demo_db\<lparr> reservations :=
                 [demo_res_active,
                  demo_res_reserved\<lparr> r_booking_status := ''active'', r_start_time := Some 500 \<rparr>],
               parking_section :=
                 [demo_section_A\<lparr> sec_reserved_count := Some 0, sec_parked_count := Some 2 \<rparr>] \<rparr>"

text \<open>
  Section Z (id 7) whose stored counters are 0 although user 1 holds an active reservation
  on it, made through the section's own reserve route (\<open>parking_spots_id\<close> is the section).
\<close>

definition demo_section_Z :: psection where
  "demo_section_Z =
     \<lparr> sec_parking_section_id = 7, sec_parking_area_id = 1, sec_section_name = ''Z'',
       sec_capacity = Some 2, sec_parked_count = Some 0, sec_reserved_count = Some 0,
       sec_section_mode = ''capacity_only'', sec_vehicle_type = ''motorcycle'',
       sec_status = Some ''available'' \<rparr>"

definition demo_res_Z :: reservation where
  "demo_res_Z =
     \<lparr> r_reservation_id = 3, r_user_id = 1, r_vehicle_id = None, r_parking_spots_id = 7,
       r_parking_section_id = None, r_spot_number = None, r_time_stamp = 50,
       r_start_time = Some 60, r_end_time = Some 86450, r_booking_status = ''active'',
       r_QR = ''CAP-50000-1'', r_qr_key = Some ''CAP-50000-1'' \<rparr>"

definition demo_db_zero :: db where
  "demo_db_zero =
     \<lparr> reservations = [demo_res_Z], parking_section = [demo_section_Z], parking_spot = [],
       vehicles = demo_vehicles, users = demo_users, parking_area = demo_areas \<rparr>"

text \<open>Section F (id 4) of capacity 1, full: one vehicle is parked on F-1.\<close>

definition demo_section_F :: psection where
  "demo_section_F =
     \<lparr> sec_parking_section_id = 4, sec_parking_area_id = 1, sec_section_name = ''F'',
       sec_capacity = Some 1, sec_parked_count = Some 1, sec_reserved_count = Some 0,
       sec_section_mode = ''capacity_only'', sec_vehicle_type = ''motorcycle'',
       sec_status = Some ''available'' \<rparr>"

definition demo_db_full :: db where
  "demo_db_full =
     \<lparr> reservations =
         [\<lparr> r_reservation_id = 1, r_user_id = 2, r_vehicle_id = Some 11, r_parking_spots_id = 0,
             r_parking_section_id = Some 4, r_spot_number = Some ''F-1'', r_time_stamp = 90,
             r_start_time = Some 100, r_end_time = None, r_booking_status = ''active'',
             r_QR = ''img1'', r_qr_key = Some ''k1'' \<rparr>],
       parking_section = [demo_section_F], parking_spot = [],
       vehicles = demo_vehicles, users = demo_users, parking_area = demo_areas \<rparr>"

text \<open>
  A car section C (id 2) with the discrete spots 5 and 6. User 1 holds a reserved
  reservation on spot 6; spot 5 is available.
\<close>

definition demo_section_C :: psection where
  "demo_section_C =
     \<lparr> sec_parking_section_id = 2, sec_parking_area_id = 1, sec_section_name = ''C'',
       sec_capacity = None, sec_parked_count = None, sec_reserved_count = None,
       sec_section_mode = ''slot_based'', sec_vehicle_type = ''car'',
       sec_status = Some ''available'' \<rparr>"

definition demo_spot5 :: spot where
  "demo_spot5 =
     \<lparr> spot_parking_spot_id = 5, spot_parking_section_id = 2, spot_spot_number = ''05'',
       spot_spot_type = ''car'', spot_status = ''available'' \<rparr>"

definition demo_spot6 :: spot where
  "demo_spot6 =
     \<lparr> spot_parking_spot_id = 6, spot_parking_section_id = 2, spot_spot_number = ''06'',
       spot_spot_type = ''car'', spot_status = ''reserved'' \<rparr>"

definition demo_res_spot6 :: reservation where
  "demo_res_spot6 =
     \<lparr> r_reservation_id = 1, r_user_id = 1, r_vehicle_id = Some 10, r_parking_spots_id = 6,
       r_parking_section_id = Some 2, r_spot_number = Some ''C-06'', r_time_stamp = 90,
       r_start_time = None, r_end_time = None, r_booking_status = ''reserved'',
       r_QR = ''img1'', r_qr_key = Some ''k1'' \<rparr>"

definition demo_db_spots :: db where
  "demo_db_spots =
     \<lparr> reservations = [demo_res_spot6], parking_section = [demo_section_C],
       parking_spot = [demo_spot5, demo_spot6],
       vehicles = demo_vehicles, users = demo_users, parking_area = demo_areas \<rparr>"

text \<open>
  Spot 6 after user 1's session on it was completed at time 300 and user 2 reserved it:
  the spot is reserved, reservation 1 is completed, reservation 2 is live.
\<close>

definition demo_db_stale :: db where
  "demo_db_stale =
     \<lparr> reservations =
         [demo_res_spot6\<lparr> r_booking_status := ''completed'', r_start_time := Some 100,
                          r_end_time := Some 300 \<rparr>,
          \<lparr> r_reservation_id = 2, r_user_id = 2, r_vehicle_id = Some 11, r_parking_spots_id = 6,
             r_parking_section_id = Some 2, r_spot_number = Some ''C-06'', r_time_stamp = 400,
             r_start_time = None, r_end_time = None, r_booking_status = ''reserved'',
             r_QR = ''img2'', r_qr_key = Some ''k2'' \<rparr>],
       parking_section = [demo_section_C],
       parking_spot = [demo_spot5, demo_spot6],
       vehicles = demo_vehicles, users = demo_users, parking_area = demo_areas \<rparr>"

text \<open>Another connection takes spot 5 between the locking read and the conditional update.\<close>

definition demo_steal5 :: "db \<Rightarrow> db" where
  "demo_steal5 d =
     d\<lparr> parking_spot :=
          update_where (\<lambda>s. spot_parking_spot_id s = 5)
            (\<lambda>s. s\<lparr> spot_status := ''reserved'' \<rparr>) (parking_spot d) \<rparr>"

text \<open>An image encoder and a key of the shape \<open>uuid.v4()\<close> returns, for the examples.\<close>

definition demo_toDataURL :: "string \<Rightarrow> string" where
  "demo_toDataURL payload = ''data:image/png;base64,'' @ payload"

definition demo_uuid :: string where
  "demo_uuid = ''3f2b8c1e-9a4d-4e6f-8b7a-0c1d2e3f4a5b''"

text \<open>
  Section D (id 9) whose stored counters have drifted past its capacity: 3 parked on a
  capacity of 2, the reserved count NULL. Section E (id 10) of capacity 4, both counters
  NULL.
\<close>

definition demo_section_D :: psection where
  "demo_section_D =
     \<lparr> sec_parking_section_id = 9, sec_parking_area_id = 1, sec_section_name = ''D'',
       sec_capacity = Some 2, sec_parked_count = Some 3, sec_reserved_count = None,
       sec_section_mode = ''capacity_only'', sec_vehicle_type = ''motorcycle'',
       sec_status = None \<rparr>"

definition demo_section_E :: psection where
  "demo_section_E =
     \<lparr> sec_parking_section_id = 10, sec_parking_area_id = 1, sec_section_name = ''E'',
       sec_capacity = Some 4, sec_parked_count = None, sec_reserved_count = None,
       sec_section_mode = ''capacity_only'', sec_vehicle_type = ''motorcycle'',
       sec_status = Some ''available'' \<rparr>"

definition demo_db_drift :: db where
  "demo_db_drift =
     \<lparr> reservations = [], parking_section = [demo_section_D, demo_section_E], parking_spot = [],
       vehicles = demo_vehicles, users = demo_users, parking_area = demo_areas \<rparr>"

text \<open>
  A legacy row: reservation 1 stores the whole JSON payload in \<open>qr_key\<close> instead of
  the bare key. The stand-in parser answers an object or an array for a text that opens
  one, and throws on anything else.
\<close>

definition demo_db_legacy :: db where
  "demo_db_legacy =
     demo_db_spots\<lparr> reservations :=
                       [demo_res_spot6\<lparr> r_qr_key := Some (qr_payload demo_uuid) \<rparr>] \<rparr>"

definition demo_parse :: "string \<Rightarrow> json option" where
  "demo_parse s = (if startsWith s CHR ''{'' then Some (JObject [])
                   else if startsWith s CHR ''['' then Some (JArray [])
                   else None)"





text \<open>
  An empty section A, and user 1 with one vehicle whose type is stored capitalised, as
  \<open>Motorcycle\<close>.
\<close>

definition demo_db_caps :: db where
  "demo_db_caps =
     \<lparr> reservations = [],
       parking_section =
         [demo_section_A\<lparr> sec_parked_count := Some 0, sec_reserved_count := Some 0 \<rparr>],
       parking_spot = [],
       vehicles =
         [\<lparr> v_vehicle_id = 13, v_user_id = 1, v_plate_number = ''MC-13'',
             v_vehicle_type = ''Motorcycle'', v_brand = None, v_color = None \<rparr>],
       users = demo_users, parking_area = demo_areas \<rparr>"

text \<open>The same store after user 1 booked a unit of section A with vehicle 13 at time 500.\<close>

definition demo_db_caps_booked :: db where
  "demo_db_caps_booked =
     demo_db_caps\<lparr> reservations :=
                      [\<lparr> r_reservation_id = 1, r_user_id = 1, r_vehicle_id = Some 13,
                          r_parking_spots_id = 0, r_parking_section_id = Some 1,
                          r_spot_number = Some ''A-1'', r_time_stamp = 500,
                          r_start_time = None, r_end_time = None,
                          r_booking_status = ''reserved'',
                          r_QR = demo_toDataURL (qr_payload demo_uuid),
                          r_qr_key = Some demo_uuid \<rparr>],
                    parking_section :=
                      [demo_section_A\<lparr> sec_parked_count := Some 0,
                                        sec_reserved_count := Some 1 \<rparr>] \<rparr>"

text \<open>The store \<open>demo_db_caps\<close> with the type of the vehicle stored in lower case.\<close>

definition demo_db_lower :: db where
  "demo_db_lower =
     demo_db_caps\<lparr> vehicles :=
                      [\<lparr> v_vehicle_id = 13, v_user_id = 1, v_plate_number = ''MC-13'',
                          v_vehicle_type = ''motorcycle'', v_brand = None, v_color = None \<rparr>] \<rparr>"

section \<open>Properties\<close>

subsection \<open>Conditional updates\<close>

lemma length_update_where [simp]: "length (update_where P f rows) = length rows"
  by (simp add: update_where_def)

lemma nth_update_where:
  "i < length rows \<Longrightarrow>
     update_where P f rows ! i = (if P (rows ! i) then f (rows ! i) else rows ! i)"
  by (simp add: update_where_def)

lemma affectedRows_pos: "x \<in> set rows \<Longrightarrow> P x \<Longrightarrow> affectedRows P rows \<noteq> 0"
  by (auto simp: affectedRows_def filter_empty_conv)

lemma affectedRows_zero: "(\<forall>x \<in> set rows. \<not> P x) \<Longrightarrow> affectedRows P rows = 0"
  by (simp add: affectedRows_def)

lemma affectedRows_zero_iff: "affectedRows P rows = 0 \<longleftrightarrow> (\<forall>x \<in> set rows. \<not> P x)"
  by (simp add: affectedRows_def filter_empty_conv)

lemma update_where_hit: "x \<in> set rows \<Longrightarrow> P x \<Longrightarrow> f x \<in> set (update_where P f rows)"
  by (auto simp: update_where_def)

lemma update_where_all:
  "(\<And>x. x \<in> set rows \<Longrightarrow> P x \<Longrightarrow> Q (f x)) \<Longrightarrow> (\<And>x. x \<in> set rows \<Longrightarrow> \<not> P x \<Longrightarrow> Q x) \<Longrightarrow>
   y \<in> set (update_where P f rows) \<Longrightarrow> Q y"
  by (auto simp: update_where_def split: if_splits)

subsection \<open>Capacity status\<close>

lemma capacity_entry_of_available:
  "ce_availableCapacity (capacity_entry_of d userId s) =
     max 0 ((case sec_capacity s of None \<Rightarrow> 0 | Some c \<Rightarrow> c)
            - (case sec_parked_count s of None \<Rightarrow> 0 | Some p \<Rightarrow> p)
            - (case sec_reserved_count s of None \<Rightarrow> 0 | Some r \<Rightarrow> r))"
  by (simp add: capacity_entry_of_def Let_def or0_def algebra_simps)

text \<open>
  C10. In every capacity-status response, each entry belongs to a motorcycle section of
  the area and reports as available capacity the maximum of 0 and capacity minus parked
  minus reserved, where a missing (NULL) capacity or counter counts as 0; the reported
  value is never negative.
\<close>

theorem capacity_status_available:
  assumes "capacity_status d userId areaId = Inr entries" and "e \<in> set entries"
  shows "\<exists>s \<in> set (parking_section d).
           sec_parking_area_id s = areaId
           \<and> ce_sectionId e = sec_parking_section_id s
           \<and> ce_availableCapacity e =
               max 0 ((case sec_capacity s of None \<Rightarrow> 0 | Some c \<Rightarrow> c)
                      - (case sec_parked_count s of None \<Rightarrow> 0 | Some p \<Rightarrow> p)
                      - (case sec_reserved_count s of None \<Rightarrow> 0 | Some r \<Rightarrow> r))
           \<and> 0 \<le> ce_availableCapacity e"
proof -
  from assms obtain s where s: "s \<in> set (parking_section d)" "sec_parking_area_id s = areaId"
    and e: "e = capacity_entry_of d userId s"
    by (auto simp: capacity_status_def Let_def split: if_splits)
  have "ce_sectionId e = sec_parking_section_id s"
    by (simp add: e capacity_entry_of_def Let_def)
  moreover have "ce_availableCapacity e =
      max 0 ((case sec_capacity s of None \<Rightarrow> 0 | Some c \<Rightarrow> c)
             - (case sec_parked_count s of None \<Rightarrow> 0 | Some p \<Rightarrow> p)
             - (case sec_reserved_count s of None \<Rightarrow> 0 | Some r \<Rightarrow> r))"
    by (simp only: e capacity_entry_of_available)
  moreover have "0 \<le> ce_availableCapacity e"
    by (simp add: e capacity_entry_of_available)
  ultimately show ?thesis using s by blast
qed

text \<open>
  Section D has drifted past its capacity (3 parked on a capacity of 2) and its reserved
  count is NULL: it reports 0 available units. Section E, whose counters are both NULL,
  reports its whole capacity of 4.
\<close>

theorem capacity_status_available_witness:
  "capacity_status demo_db_drift 1 1
     = Inr [capacity_entry_of demo_db_drift 1 demo_section_D,
            capacity_entry_of demo_db_drift 1 demo_section_E]
   \<and> sec_reserved_count demo_section_D = None
   \<and> ce_availableCapacity (capacity_entry_of demo_db_drift 1 demo_section_D) = 0
   \<and> ce_availableCapacity (capacity_entry_of demo_db_drift 1 demo_section_E) = 4
   \<and> (\<exists>s \<in> set (parking_section demo_db_drift).
         sec_parking_area_id s = 1
         \<and> ce_sectionId (capacity_entry_of demo_db_drift 1 demo_section_D) = sec_parking_section_id s
         \<and> ce_availableCapacity (capacity_entry_of demo_db_drift 1 demo_section_D) =
             max 0 ((case sec_capacity s of None \<Rightarrow> 0 | Some c \<Rightarrow> c)
                    - (case sec_parked_count s of None \<Rightarrow> 0 | Some p \<Rightarrow> p)
                    - (case sec_reserved_count s of None \<Rightarrow> 0 | Some r \<Rightarrow> r))
         \<and> 0 \<le> ce_availableCapacity (capacity_entry_of demo_db_drift 1 demo_section_D))"
proof -
  have h: "capacity_status demo_db_drift 1 1
             = Inr [capacity_entry_of demo_db_drift 1 demo_section_D,
                    capacity_entry_of demo_db_drift 1 demo_section_E]"
    by code_simp
  have n: "sec_reserved_count demo_section_D = None" by (simp add: demo_section_D_def)
  have v: "ce_availableCapacity (capacity_entry_of demo_db_drift 1 demo_section_D) = 0"
    by code_simp
  have w: "ce_availableCapacity (capacity_entry_of demo_db_drift 1 demo_section_E) = 4"
    by code_simp
  have m: "capacity_entry_of demo_db_drift 1 demo_section_D
             \<in> set [capacity_entry_of demo_db_drift 1 demo_section_D,
                    capacity_entry_of demo_db_drift 1 demo_section_E]"
    by simp
  note t = capacity_status_available [OF h m]
  show ?thesis
    by (rule conjI [OF h conjI [OF n conjI [OF v conjI [OF w t]]]])
qed

subsection \<open>Confirm\<close>

text \<open>
  C3, as the claim states it, fails. A confirm of the already confirmed reservation 2 is
  answered 404 with no error code, and the answer is the one given for a reservation
  that does not exist: the handler has no ALREADY_CONFIRMED answer. And being in status
  reserved is not enough for the confirm to go through: reservation 2 is reserved and
  belongs to user 1, and a confirm of it by user 2 is answered the same 404 and changes
  nothing.
\<close>

theorem confirm_parking_refused:
  "r_reservation_id demo_res_reserved = 2 \<and> r_user_id demo_res_reserved = 1
   \<and> r_booking_status demo_res_reserved = ''reserved''
   \<and> demo_res_reserved \<in> set (reservations demo_db)
   \<and> confirm_parking demo_db 500 2 1 (Some 2)
       = (Inl (Failure 404 ''Reservation not found or already confirmed'' None), demo_db)
   \<and> confirm_parking demo_db_confirmed 600 1 1 (Some 2)
       = (Inl (Failure 404 ''Reservation not found or already confirmed'' None),
          demo_db_confirmed)
   \<and> confirm_parking demo_db_confirmed 600 1 1 (Some 99)
       = (Inl (Failure 404 ''Reservation not found or already confirmed'' None),
          demo_db_confirmed)"
  by (simp add: confirm_parking_def Let_def affectedRows_def
        demo_db_def demo_db_confirmed_def demo_res_reserved_def demo_res_active_def)

text \<open>
  C3, amended. Confirm is legal only from status reserved and only for the reservation's
  own user. When that user confirms a reserved capacity-section reservation on the route
  of the section the reservation targets (on the dummy spot 0 with the section in
  \<open>parking_section_id\<close>, or with the section in \<open>parking_spots_id\<close>), and the section
  is in the store, the call succeeds: every such row becomes active with the start time
  set, and in the same transaction the reserved count of that section goes down by 1 and
  its parked count up by 1, every other section unchanged. When the caller has no
  reserved reservation under the id (it is already active or completed, is someone
  else's, or does not exist), the call fails with 404 "Reservation not found or already
  confirmed", without an error code, and leaves the store as it was.
\<close>

theorem confirm_parking_transition:
  "(r \<in> set (reservations d) \<and> r_reservation_id r = rid \<and> r_user_id r = userId
      \<and> r_booking_status r = ''reserved''
      \<and> (r_parking_spots_id r = 0 \<and> r_parking_section_id r = Some sectionId
          \<or> r_parking_section_id r = None \<and> r_parking_spots_id r = sectionId)
      \<and> sect \<in> set (parking_section d) \<and> sec_parking_section_id sect = sectionId
    \<longrightarrow> (\<exists>d'. confirm_parking d now userId sectionId (Some rid)
                 = (Inr ''Parking confirmed successfully'', d')
         \<and> length (reservations d') = length (reservations d)
         \<and> (\<forall>i < length (reservations d).
               reservations d' ! i =
                 (if r_reservation_id (reservations d ! i) = rid
                     \<and> r_user_id (reservations d ! i) = userId
                     \<and> r_booking_status (reservations d ! i) = ''reserved''
                  then (reservations d ! i)
                         \<lparr> r_booking_status := ''active'', r_start_time := Some now \<rparr>
                  else reservations d ! i))
         \<and> r\<lparr> r_booking_status := ''active'', r_start_time := Some now \<rparr>
               \<in> set (reservations d')
         \<and> length (parking_section d') = length (parking_section d)
         \<and> (\<forall>i < length (parking_section d).
               parking_section d' ! i =
                 (if sec_parking_section_id (parking_section d ! i) = sectionId
                  then (parking_section d ! i)
                         \<lparr> sec_reserved_count :=
                              map_option (\<lambda>c. c - 1) (sec_reserved_count (parking_section d ! i)),
                            sec_parked_count :=
                              map_option (\<lambda>c. c + 1) (sec_parked_count (parking_section d ! i)) \<rparr>
                  else parking_section d ! i))
         \<and> sect\<lparr> sec_reserved_count := map_option (\<lambda>c. c - 1) (sec_reserved_count sect),
                  sec_parked_count := map_option (\<lambda>c. c + 1) (sec_parked_count sect) \<rparr>
               \<in> set (parking_section d')))
   \<and> ((\<forall>x \<in> set (reservations e).
          r_reservation_id x = qid \<and> r_user_id x = userId2
          \<longrightarrow> r_booking_status x \<noteq> ''reserved'')
      \<longrightarrow> confirm_parking e now2 userId2 sectionId2 (Some qid)
            = (Inl (Failure 404 ''Reservation not found or already confirmed'' None), e))"
proof (intro conjI impI)
  assume a: "r \<in> set (reservations d) \<and> r_reservation_id r = rid \<and> r_user_id r = userId
      \<and> r_booking_status r = ''reserved''
      \<and> (r_parking_spots_id r = 0 \<and> r_parking_section_id r = Some sectionId
          \<or> r_parking_section_id r = None \<and> r_parking_spots_id r = sectionId)
      \<and> sect \<in> set (parking_section d) \<and> sec_parking_section_id sect = sectionId"
  let ?P = "\<lambda>x. r_reservation_id x = rid \<and> r_user_id x = userId \<and> r_booking_status x = ''reserved''"
  let ?f = "\<lambda>x. x\<lparr> r_booking_status := ''active'', r_start_time := Some now \<rparr>"
  let ?Q = "\<lambda>ps. sec_parking_section_id ps = sectionId"
  let ?g = "\<lambda>ps. ps\<lparr> sec_reserved_count := map_option (\<lambda>c. c - 1) (sec_reserved_count ps),
                      sec_parked_count := map_option (\<lambda>c. c + 1) (sec_parked_count ps) \<rparr>"
  let ?d' = "d\<lparr> reservations := update_where ?P ?f (reservations d),
                 parking_section := update_where ?Q ?g (parking_section d) \<rparr>"
  have nz: "affectedRows ?P (reservations d) \<noteq> 0"
    using a by (intro affectedRows_pos[of r]) auto
  then have eq: "confirm_parking d now userId sectionId (Some rid)
                   = (Inr ''Parking confirmed successfully'', ?d')"
    by (simp add: confirm_parking_def Let_def sql_add_def)
  have r': "?f r \<in> set (reservations ?d')"
    using a update_where_hit[of r "reservations d" ?P ?f] by simp
  have s': "?g sect \<in> set (parking_section ?d')"
    using a update_where_hit[of sect "parking_section d" ?Q ?g] by simp
  show "\<exists>d'. confirm_parking d now userId sectionId (Some rid)
                 = (Inr ''Parking confirmed successfully'', d')
         \<and> length (reservations d') = length (reservations d)
         \<and> (\<forall>i < length (reservations d).
               reservations d' ! i =
                 (if r_reservation_id (reservations d ! i) = rid
                     \<and> r_user_id (reservations d ! i) = userId
                     \<and> r_booking_status (reservations d ! i) = ''reserved''
                  then (reservations d ! i)
                         \<lparr> r_booking_status := ''active'', r_start_time := Some now \<rparr>
                  else reservations d ! i))
         \<and> r\<lparr> r_booking_status := ''active'', r_start_time := Some now \<rparr>
               \<in> set (reservations d')
         \<and> length (parking_section d') = length (parking_section d)
         \<and> (\<forall>i < length (parking_section d).
               parking_section d' ! i =
                 (if sec_parking_section_id (parking_section d ! i) = sectionId
                  then (parking_section d ! i)
                         \<lparr> sec_reserved_count :=
                              map_option (\<lambda>c. c - 1) (sec_reserved_count (parking_section d ! i)),
                            sec_parked_count :=
                              map_option (\<lambda>c. c + 1) (sec_parked_count (parking_section d ! i)) \<rparr>
                  else parking_section d ! i))
         \<and> sect\<lparr> sec_reserved_count := map_option (\<lambda>c. c - 1) (sec_reserved_count sect),
                  sec_parked_count := map_option (\<lambda>c. c + 1) (sec_parked_count sect) \<rparr>
               \<in> set (parking_section d')"
    apply (rule exI[of _ ?d'])
    apply (intro conjI)
         apply (rule eq)
        apply simp
       apply (simp add: nth_update_where)
      apply (rule r')
     apply simp
    apply (simp add: nth_update_where)
    apply (rule s')
    done
next
  assume b: "\<forall>x \<in> set (reservations e).
          r_reservation_id x = qid \<and> r_user_id x = userId2
          \<longrightarrow> r_booking_status x \<noteq> ''reserved''"
  have "affectedRows (\<lambda>x. r_reservation_id x = qid \<and> r_user_id x = userId2
                \<and> r_booking_status x = ''reserved'') (reservations e) = 0"
    using b by (intro affectedRows_zero) auto
  then show "confirm_parking e now2 userId2 sectionId2 (Some qid)
            = (Inl (Failure 404 ''Reservation not found or already confirmed'' None), e)"
    by (simp add: confirm_parking_def Let_def)
qed

text \<open>
  User 1 confirms the reserved reservation 2 on the route of its section 1 at time 500:
  the reserved count of section A goes from 1 to 0 and the parked count from 1 to 2. A
  second confirm at time 600 fails and changes nothing.
\<close>

theorem confirm_parking_transition_witness:
  "confirm_parking demo_db 500 1 1 (Some 2)
     = (Inr ''Parking confirmed successfully'', demo_db_confirmed)
   \<and> parking_section demo_db_confirmed
       = [demo_section_A\<lparr> sec_reserved_count := Some 0, sec_parked_count := Some 2 \<rparr>]
   \<and> confirm_parking demo_db_confirmed 600 1 1 (Some 2)
     = (Inl (Failure 404 ''Reservation not found or already confirmed'' None), demo_db_confirmed)
   \<and> (\<exists>d'. confirm_parking demo_db 500 1 1 (Some 2)
                 = (Inr ''Parking confirmed successfully'', d')
         \<and> length (reservations d') = length (reservations demo_db)
         \<and> (\<forall>i < length (reservations demo_db).
               reservations d' ! i =
                 (if r_reservation_id (reservations demo_db ! i) = 2
                     \<and> r_user_id (reservations demo_db ! i) = 1
                     \<and> r_booking_status (reservations demo_db ! i) = ''reserved''
                  then (reservations demo_db ! i)
                         \<lparr> r_booking_status := ''active'', r_start_time := Some 500 \<rparr>
                  else reservations demo_db ! i))
         \<and> demo_res_reserved\<lparr> r_booking_status := ''active'', r_start_time := Some 500 \<rparr>
               \<in> set (reservations d')
         \<and> length (parking_section d') = length (parking_section demo_db)
         \<and> (\<forall>i < length (parking_section demo_db).
               parking_section d' ! i =
                 (if sec_parking_section_id (parking_section demo_db ! i) = 1
                  then (parking_section demo_db ! i)
                         \<lparr> sec_reserved_count :=
                              map_option (\<lambda>c. c - 1) (sec_reserved_count (parking_section demo_db ! i)),
                            sec_parked_count :=
                              map_option (\<lambda>c. c + 1) (sec_parked_count (parking_section demo_db ! i)) \<rparr>
                  else parking_section demo_db ! i))
         \<and> demo_section_A\<lparr> sec_reserved_count := map_option (\<lambda>c. c - 1) (sec_reserved_count demo_section_A),
                  sec_parked_count := map_option (\<lambda>c. c + 1) (sec_parked_count demo_section_A) \<rparr>
               \<in> set (parking_section d'))"
proof -
  have h1: "demo_res_reserved \<in> set (reservations demo_db)
      \<and> r_reservation_id demo_res_reserved = 2 \<and> r_user_id demo_res_reserved = 1
      \<and> r_booking_status demo_res_reserved = ''reserved''
      \<and> (r_parking_spots_id demo_res_reserved = 0
            \<and> r_parking_section_id demo_res_reserved = Some 1
          \<or> r_parking_section_id demo_res_reserved = None
            \<and> r_parking_spots_id demo_res_reserved = 1)
      \<and> demo_section_A \<in> set (parking_section demo_db)
      \<and> sec_parking_section_id demo_section_A = 1"
    by (simp add: demo_db_def demo_res_reserved_def demo_section_A_def)
  have h2: "\<forall>x \<in> set (reservations demo_db_confirmed).
          r_reservation_id x = 2 \<and> r_user_id x = 1 \<longrightarrow> r_booking_status x \<noteq> ''reserved''"
    by (simp add: demo_db_confirmed_def demo_db_def demo_res_reserved_def demo_res_active_def)
  have first: "confirm_parking demo_db 500 1 1 (Some 2)
     = (Inr ''Parking confirmed successfully'', demo_db_confirmed)"
    by (simp add: confirm_parking_def Let_def affectedRows_def update_where_def sql_add_def
          demo_db_def demo_db_confirmed_def demo_res_reserved_def demo_res_active_def
          demo_section_A_def)
  have secs: "parking_section demo_db_confirmed
       = [demo_section_A\<lparr> sec_reserved_count := Some 0, sec_parked_count := Some 2 \<rparr>]"
    by (simp add: demo_db_confirmed_def)
  note t = confirm_parking_transition
             [where r = demo_res_reserved and d = demo_db and rid = 2 and userId = 1
                and sectionId = 1 and sect = demo_section_A and now = 500
                and e = demo_db_confirmed and qid = 2 and ?userId2.0 = 1
                and ?now2.0 = 600 and ?sectionId2.0 = 1]
  note t1 = t [THEN conjunct1, THEN mp, OF h1]
  note t2 = t [THEN conjunct2, THEN mp, OF h2]
  show ?thesis
    by (rule conjI [OF first conjI [OF secs conjI [OF t2 t1]]])
qed

text \<open>
  The route does not compare its section with the reservation: confirmed on the route of
  section 7, reservation 2 of section 1 becomes active while the counters of section 1
  stay as they were.
\<close>

lemma confirm_parking_other_section:
  "confirm_parking demo_db 500 1 7 (Some 2)
     = (Inr ''Parking confirmed successfully'',
        demo_db\<lparr> reservations :=
                   [demo_res_active,
                    demo_res_reserved\<lparr> r_booking_status := ''active'',
                                       r_start_time := Some 500 \<rparr>] \<rparr>)"
  by (simp add: confirm_parking_def Let_def affectedRows_def update_where_def sql_add_def
        demo_db_def demo_res_reserved_def demo_res_active_def demo_section_A_def)

subsection \<open>End of a capacity reservation\<close>

text \<open>
  C7, as the claim states it, fails: with a stored parked count of 0, ending the active
  reservation of user 1 on section 7 writes -1. The update has no floor.
\<close>

theorem end_reservation_below_zero:
  "end_reservation demo_db_zero 500 1 7
     = (Inr ''Capacity reservation ended successfully'',
        demo_db_zero
          \<lparr> reservations :=
              [demo_res_Z\<lparr> r_booking_status := ''completed'', r_end_time := Some 500 \<rparr>],
            parking_section := [demo_section_Z\<lparr> sec_parked_count := Some (- 1) \<rparr>] \<rparr>)"
  by (simp add: end_reservation_def Let_def affectedRows_def update_where_def sql_add_def
        demo_db_zero_def demo_res_Z_def demo_section_Z_def)

text \<open>
  C7, amended. The end route of a section addresses the caller's active reservations
  whose \<open>parking_spots_id\<close> is the section id, as the rows written by the section's own
  reserve route are. When the caller has such a reservation and the section is in the
  store, the call succeeds: every such row is completed with the end time set, and the
  parked count of the section goes down by exactly 1, with no floor: a stored count \<open>c\<close>
  becomes \<open>c - 1\<close>, so 0 becomes -1. When the caller has no such reservation (as for a
  reservation booked on the dummy spot 0, whatever its section), the call fails with 404
  and changes nothing.
\<close>

theorem end_reservation_decrements:
  "(r \<in> set (reservations d) \<and> r_parking_spots_id r = sectionId
      \<and> r_user_id r = userId \<and> r_booking_status r = ''active''
      \<and> sect \<in> set (parking_section d) \<and> sec_parking_section_id sect = sectionId
    \<longrightarrow> (\<exists>d'. end_reservation d now userId sectionId
                 = (Inr ''Capacity reservation ended successfully'', d')
         \<and> length (reservations d') = length (reservations d)
         \<and> (\<forall>i < length (reservations d).
               reservations d' ! i =
                 (if r_parking_spots_id (reservations d ! i) = sectionId
                     \<and> r_user_id (reservations d ! i) = userId
                     \<and> r_booking_status (reservations d ! i) = ''active''
                  then (reservations d ! i)
                         \<lparr> r_booking_status := ''completed'', r_end_time := Some now \<rparr>
                  else reservations d ! i))
         \<and> r\<lparr> r_booking_status := ''completed'', r_end_time := Some now \<rparr>
               \<in> set (reservations d')
         \<and> length (parking_section d') = length (parking_section d)
         \<and> (\<forall>i < length (parking_section d).
               parking_section d' ! i =
                 (if sec_parking_section_id (parking_section d ! i) = sectionId
                  then (parking_section d ! i)
                         \<lparr> sec_parked_count :=
                              map_option (\<lambda>c. c - 1) (sec_parked_count (parking_section d ! i)) \<rparr>
                  else parking_section d ! i))
         \<and> sect\<lparr> sec_parked_count := map_option (\<lambda>c. c - 1) (sec_parked_count sect) \<rparr>
               \<in> set (parking_section d')))
   \<and> ((\<forall>x \<in> set (reservations e).
          r_parking_spots_id x = sectionId2 \<and> r_user_id x = userId2
          \<longrightarrow> r_booking_status x \<noteq> ''active'')
      \<longrightarrow> end_reservation e now2 userId2 sectionId2
            = (Inl (Failure 404 ''No active reservation found for this user in this section''
                      None), e))"
proof (intro conjI impI)
  assume a: "r \<in> set (reservations d) \<and> r_parking_spots_id r = sectionId
      \<and> r_user_id r = userId \<and> r_booking_status r = ''active''
      \<and> sect \<in> set (parking_section d) \<and> sec_parking_section_id sect = sectionId"
  let ?P = "\<lambda>x. r_parking_spots_id x = sectionId \<and> r_user_id x = userId
                 \<and> r_booking_status x = ''active''"
  let ?f = "\<lambda>x. x\<lparr> r_booking_status := ''completed'', r_end_time := Some now \<rparr>"
  let ?Q = "\<lambda>ps. sec_parking_section_id ps = sectionId"
  let ?g = "\<lambda>ps. ps\<lparr> sec_parked_count := map_option (\<lambda>c. c - 1) (sec_parked_count ps) \<rparr>"
  let ?d' = "d\<lparr> reservations := update_where ?P ?f (reservations d),
                 parking_section := update_where ?Q ?g (parking_section d) \<rparr>"
  have nz: "affectedRows ?P (reservations d) \<noteq> 0"
    using a by (intro affectedRows_pos[of r]) auto
  then have eq: "end_reservation d now userId sectionId
                   = (Inr ''Capacity reservation ended successfully'', ?d')"
    by (simp add: end_reservation_def Let_def sql_add_def)
  have r': "?f r \<in> set (reservations ?d')"
    using a update_where_hit[of r "reservations d" ?P ?f] by simp
  have s': "?g sect \<in> set (parking_section ?d')"
    using a update_where_hit[of sect "parking_section d" ?Q ?g] by simp
  show "\<exists>d'. end_reservation d now userId sectionId
                 = (Inr ''Capacity reservation ended successfully'', d')
         \<and> length (reservations d') = length (reservations d)
         \<and> (\<forall>i < length (reservations d).
               reservations d' ! i =
                 (if r_parking_spots_id (reservations d ! i) = sectionId
                     \<and> r_user_id (reservations d ! i) = userId
                     \<and> r_booking_status (reservations d ! i) = ''active''
                  then (reservations d ! i)
                         \<lparr> r_booking_status := ''completed'', r_end_time := Some now \<rparr>
                  else reservations d ! i))
         \<and> r\<lparr> r_booking_status := ''completed'', r_end_time := Some now \<rparr>
               \<in> set (reservations d')
         \<and> length (parking_section d') = length (parking_section d)
         \<and> (\<forall>i < length (parking_section d).
               parking_section d' ! i =
                 (if sec_parking_section_id (parking_section d ! i) = sectionId
                  then (parking_section d ! i)
                         \<lparr> sec_parked_count :=
                              map_option (\<lambda>c. c - 1) (sec_parked_count (parking_section d ! i)) \<rparr>
                  else parking_section d ! i))
         \<and> sect\<lparr> sec_parked_count := map_option (\<lambda>c. c - 1) (sec_parked_count sect) \<rparr>
               \<in> set (parking_section d')"
    apply (rule exI[of _ ?d'])
    apply (intro conjI)
         apply (rule eq)
        apply simp
       apply (simp add: nth_update_where)
      apply (rule r')
     apply simp
    apply (simp add: nth_update_where)
    apply (rule s')
    done
next
  assume b: "\<forall>x \<in> set (reservations e).
          r_parking_spots_id x = sectionId2 \<and> r_user_id x = userId2
          \<longrightarrow> r_booking_status x \<noteq> ''active''"
  have "affectedRows (\<lambda>x. r_parking_spots_id x = sectionId2 \<and> r_user_id x = userId2
                \<and> r_booking_status x = ''active'') (reservations e) = 0"
    using b by (intro affectedRows_zero) auto
  then show "end_reservation e now2 userId2 sectionId2
            = (Inl (Failure 404 ''No active reservation found for this user in this section''
                      None), e)"
    by (simp add: end_reservation_def Let_def)
qed

text \<open>
  User 1 ends the active reservation 3 on section 7, whose stored parked count is 0: the
  count becomes -1. User 2, whose active reservation 1 of section 1 sits on the dummy
  spot 0, is refused on the route of section 1.
\<close>

theorem end_reservation_decrements_witness:
  "parking_section (snd (end_reservation demo_db_zero 500 1 7))
     = [demo_section_Z\<lparr> sec_parked_count := Some (- 1) \<rparr>]
   \<and> r_booking_status demo_res_active = ''active''
   \<and> r_parking_section_id demo_res_active = Some 1 \<and> r_parking_spots_id demo_res_active = 0
   \<and> end_reservation demo_db 500 2 1
       = (Inl (Failure 404 ''No active reservation found for this user in this section'' None),
          demo_db)
   \<and> (\<exists>d'. end_reservation demo_db_zero 500 1 7
                 = (Inr ''Capacity reservation ended successfully'', d')
         \<and> length (reservations d') = length (reservations demo_db_zero)
         \<and> (\<forall>i < length (reservations demo_db_zero).
               reservations d' ! i =
                 (if r_parking_spots_id (reservations demo_db_zero ! i) = 7
                     \<and> r_user_id (reservations demo_db_zero ! i) = 1
                     \<and> r_booking_status (reservations demo_db_zero ! i) = ''active''
                  then (reservations demo_db_zero ! i)
                         \<lparr> r_booking_status := ''completed'', r_end_time := Some 500 \<rparr>
                  else reservations demo_db_zero ! i))
         \<and> demo_res_Z\<lparr> r_booking_status := ''completed'', r_end_time := Some 500 \<rparr>
               \<in> set (reservations d')
         \<and> length (parking_section d') = length (parking_section demo_db_zero)
         \<and> (\<forall>i < length (parking_section demo_db_zero).
               parking_section d' ! i =
                 (if sec_parking_section_id (parking_section demo_db_zero ! i) = 7
                  then (parking_section demo_db_zero ! i)
                         \<lparr> sec_parked_count :=
                              map_option (\<lambda>c. c - 1) (sec_parked_count (parking_section demo_db_zero ! i)) \<rparr>
                  else parking_section demo_db_zero ! i))
         \<and> demo_section_Z\<lparr> sec_parked_count := map_option (\<lambda>c. c - 1) (sec_parked_count demo_section_Z) \<rparr>
               \<in> set (parking_section d'))"
proof -
  have h1: "demo_res_Z \<in> set (reservations demo_db_zero) \<and> r_parking_spots_id demo_res_Z = 7
      \<and> r_user_id demo_res_Z = 1 \<and> r_booking_status demo_res_Z = ''active''
      \<and> demo_section_Z \<in> set (parking_section demo_db_zero)
      \<and> sec_parking_section_id demo_section_Z = 7"
    by (simp add: demo_db_zero_def demo_res_Z_def demo_section_Z_def)
  have h2: "\<forall>x \<in> set (reservations demo_db).
          r_parking_spots_id x = 1 \<and> r_user_id x = 2 \<longrightarrow> r_booking_status x \<noteq> ''active''"
    by (simp add: demo_db_def demo_res_reserved_def demo_res_active_def)
  have v: "parking_section (snd (end_reservation demo_db_zero 500 1 7))
     = [demo_section_Z\<lparr> sec_parked_count := Some (- 1) \<rparr>]"
    by (simp add: end_reservation_def Let_def affectedRows_def update_where_def sql_add_def
          demo_db_zero_def demo_res_Z_def demo_section_Z_def)
  have f: "r_booking_status demo_res_active = ''active''
      \<and> r_parking_section_id demo_res_active = Some 1 \<and> r_parking_spots_id demo_res_active = 0"
    by (simp add: demo_res_active_def)
  note t = end_reservation_decrements
             [where r = demo_res_Z and d = demo_db_zero and userId = 1
                and sectionId = 7 and sect = demo_section_Z and now = 500
                and e = demo_db and ?userId2.0 = 2 and ?now2.0 = 500 and ?sectionId2.0 = 1]
  note t1 = t [THEN conjunct1, THEN mp, OF h1]
  note t2 = t [THEN conjunct2, THEN mp, OF h2]
  show ?thesis
    by (rule conjI [OF v conjI [OF f [THEN conjunct1] conjI [OF f [THEN conjunct2, THEN conjunct1]
          conjI [OF f [THEN conjunct2, THEN conjunct2] conjI [OF t2 t1]]]]])
qed

subsection \<open>Release\<close>

text \<open>
  C6, as the claim states it, fails: the release of the reserved reservation of user 1 on
  A-1 is answered 404 and the store, the reserved count included, is unchanged.
\<close>

theorem release_reserved_rejected:
  "r_booking_status demo_res_reserved = ''reserved''
   \<and> release demo_db 500 1 1 ''A-1''
     = (Inl (Failure 404 ''No active reservation found for this spot'' None), demo_db)"
  by (simp add: release_def Let_def affectedRows_def demo_db_def demo_res_reserved_def
        demo_res_active_def)

text \<open>
  C6, amended. Release is legal only from status active. A release of an active
  reservation of the caller on the pseudo-spot succeeds: every matching row is completed
  with the end time set and the section's parked count goes down by 1, so that a section
  whose counters were within its capacity has a free unit for a new reserve. When the
  caller has no active reservation on the pseudo-spot (a reserved one included), the
  release fails with 404 and changes nothing.
\<close>

theorem release_transition:
  "(r \<in> set (reservations d) \<and> r_parking_section_id r = Some sectionId
      \<and> r_spot_number r = Some spotNumber \<and> r_user_id r = userId
      \<and> r_booking_status r = ''active''
    \<longrightarrow> (\<exists>d'. release d now userId sectionId spotNumber
                 = (Inr ''Successfully released parking spot'', d')
         \<and> length (reservations d') = length (reservations d)
         \<and> (\<forall>i < length (reservations d).
               reservations d' ! i =
                 (if r_parking_section_id (reservations d ! i) = Some sectionId
                     \<and> r_spot_number (reservations d ! i) = Some spotNumber
                     \<and> r_user_id (reservations d ! i) = userId
                     \<and> r_booking_status (reservations d ! i) = ''active''
                  then (reservations d ! i)
                         \<lparr> r_booking_status := ''completed'', r_end_time := Some now \<rparr>
                  else reservations d ! i))
         \<and> length (parking_section d') = length (parking_section d)
         \<and> (\<forall>i < length (parking_section d).
               parking_section d' ! i =
                 (if sec_parking_section_id (parking_section d ! i) = sectionId
                  then (parking_section d ! i)
                         \<lparr> sec_parked_count :=
                              map_option (\<lambda>c. c - 1) (sec_parked_count (parking_section d ! i)) \<rparr>
                  else parking_section d ! i))
         \<and> (\<forall>i < length (parking_section d). \<forall>c p rc.
               sec_parking_section_id (parking_section d ! i) = sectionId
               \<and> sec_capacity (parking_section d ! i) = Some c
               \<and> sec_parked_count (parking_section d ! i) = Some p
               \<and> sec_reserved_count (parking_section d ! i) = Some rc
               \<and> p + rc \<le> c
               \<longrightarrow> sql_has_capacity (parking_section d' ! i))))
   \<and> ((\<forall>x \<in> set (reservations e).
          r_parking_section_id x = Some sectionId2 \<and> r_spot_number x = Some spotNumber2
          \<and> r_user_id x = userId2 \<longrightarrow> r_booking_status x \<noteq> ''active'')
      \<longrightarrow> release e now2 userId2 sectionId2 spotNumber2
            = (Inl (Failure 404 ''No active reservation found for this spot'' None), e))"
proof (intro conjI impI)
  assume a: "r \<in> set (reservations d) \<and> r_parking_section_id r = Some sectionId
      \<and> r_spot_number r = Some spotNumber \<and> r_user_id r = userId
      \<and> r_booking_status r = ''active''"
  have "affectedRows (\<lambda>x. r_parking_section_id x = Some sectionId
            \<and> r_spot_number x = Some spotNumber \<and> r_user_id x = userId
            \<and> r_booking_status x = ''active'') (reservations d) \<noteq> 0"
    using a by (intro affectedRows_pos[of r]) auto
  then show "\<exists>d'. release d now userId sectionId spotNumber
                 = (Inr ''Successfully released parking spot'', d')
         \<and> length (reservations d') = length (reservations d)
         \<and> (\<forall>i < length (reservations d).
               reservations d' ! i =
                 (if r_parking_section_id (reservations d ! i) = Some sectionId
                     \<and> r_spot_number (reservations d ! i) = Some spotNumber
                     \<and> r_user_id (reservations d ! i) = userId
                     \<and> r_booking_status (reservations d ! i) = ''active''
                  then (reservations d ! i)
                         \<lparr> r_booking_status := ''completed'', r_end_time := Some now \<rparr>
                  else reservations d ! i))
         \<and> length (parking_section d') = length (parking_section d)
         \<and> (\<forall>i < length (parking_section d).
               parking_section d' ! i =
                 (if sec_parking_section_id (parking_section d ! i) = sectionId
                  then (parking_section d ! i)
                         \<lparr> sec_parked_count :=
                              map_option (\<lambda>c. c - 1) (sec_parked_count (parking_section d ! i)) \<rparr>
                  else parking_section d ! i))
         \<and> (\<forall>i < length (parking_section d). \<forall>c p rc.
               sec_parking_section_id (parking_section d ! i) = sectionId
               \<and> sec_capacity (parking_section d ! i) = Some c
               \<and> sec_parked_count (parking_section d ! i) = Some p
               \<and> sec_reserved_count (parking_section d ! i) = Some rc
               \<and> p + rc \<le> c
               \<longrightarrow> sql_has_capacity (parking_section d' ! i))"
    by (auto simp add: release_def Let_def nth_update_where sql_add_def sql_has_capacity_def)
next
  assume b: "\<forall>x \<in> set (reservations e).
          r_parking_section_id x = Some sectionId2 \<and> r_spot_number x = Some spotNumber2
          \<and> r_user_id x = userId2 \<longrightarrow> r_booking_status x \<noteq> ''active''"
  have "affectedRows (\<lambda>x. r_parking_section_id x = Some sectionId2
            \<and> r_spot_number x = Some spotNumber2 \<and> r_user_id x = userId2
            \<and> r_booking_status x = ''active'') (reservations e) = 0"
    using b by (intro affectedRows_zero) auto
  then show "release e now2 userId2 sectionId2 spotNumber2
            = (Inl (Failure 404 ''No active reservation found for this spot'' None), e)"
    by (simp add: release_def Let_def)
qed

text \<open>
  User 2 releases the active reservation on A-2: the parked count of section A goes from
  1 to 0. User 1, whose reservation on A-1 is only reserved, is refused.
\<close>

theorem release_transition_witness:
  "release demo_db 500 2 1 ''A-2''
     = (Inr ''Successfully released parking spot'',
        demo_db\<lparr> reservations :=
                   [demo_res_active\<lparr> r_booking_status := ''completed'', r_end_time := Some 500 \<rparr>,
                    demo_res_reserved],
                 parking_section := [demo_section_A\<lparr> sec_parked_count := Some 0 \<rparr>] \<rparr>)
   \<and> sql_has_capacity (demo_section_A\<lparr> sec_parked_count := Some 0 \<rparr>)
   \<and> release demo_db 500 1 1 ''A-1''
     = (Inl (Failure 404 ''No active reservation found for this spot'' None), demo_db)"
proof -
  have h1: "demo_res_active \<in> set (reservations demo_db)
      \<and> r_parking_section_id demo_res_active = Some 1
      \<and> r_spot_number demo_res_active = Some ''A-2'' \<and> r_user_id demo_res_active = 2
      \<and> r_booking_status demo_res_active = ''active''"
    by (simp add: demo_db_def demo_res_active_def)
  have h2: "\<forall>x \<in> set (reservations demo_db).
          r_parking_section_id x = Some 1 \<and> r_spot_number x = Some ''A-1''
          \<and> r_user_id x = 1 \<longrightarrow> r_booking_status x \<noteq> ''active''"
    by (simp add: demo_db_def demo_res_active_def demo_res_reserved_def)
  have first: "release demo_db 500 2 1 ''A-2''
     = (Inr ''Successfully released parking spot'',
        demo_db\<lparr> reservations :=
                   [demo_res_active\<lparr> r_booking_status := ''completed'', r_end_time := Some 500 \<rparr>,
                    demo_res_reserved],
                 parking_section := [demo_section_A\<lparr> sec_parked_count := Some 0 \<rparr>] \<rparr>)"
    by (simp add: release_def Let_def affectedRows_def update_where_def sql_add_def
          demo_db_def demo_res_active_def demo_res_reserved_def demo_section_A_def)
  have cap: "sql_has_capacity (demo_section_A\<lparr> sec_parked_count := Some 0 \<rparr>)"
    by (simp add: sql_has_capacity_def demo_section_A_def)
  from release_transition
         [of demo_res_active demo_db 1 "''A-2''" 2 500 demo_db 1 "''A-1''" 1 500]
       h1 h2 first cap
  show ?thesis by blast
qed

subsection \<open>Paths that miss a check\<close>

text \<open>
  C2. The guest walk-up route checks that no active reservation carries the label, not
  that the section has a free unit: on the full section F (capacity 1, 1 parked) a guest
  is assigned to F-2 and the parked count becomes 2.
\<close>

theorem guest_assign_exceeds_capacity:
  "fst (guest_assign demo_db_full 500 ''g@x'' 9 4 ''F-2'' ''Gil'' ''P-1'' None None)
     = Inr \<lparr> gr_sectionId = 4, gr_spotNumber = ''F-2'', gr_reservationId = 2,
             gr_sectionName = ''F'' \<rparr>
   \<and> parking_section
       (snd (guest_assign demo_db_full 500 ''g@x'' 9 4 ''F-2'' ''Gil'' ''P-1'' None None))
     = [demo_section_F\<lparr> sec_parked_count := Some 2 \<rparr>]
   \<and> sec_capacity demo_section_F = Some 1
   \<and> within_capacity demo_section_F
   \<and> \<not> within_capacity (demo_section_F\<lparr> sec_parked_count := Some 2 \<rparr>)"
  by (simp add: guest_assign_def Let_def update_where_def sql_add_def insertId_def
        within_capacity_def or0_def demo_db_full_def demo_section_F_def)

text \<open>
  The section's own reserve route refuses the same full section.
\<close>

lemma reserve_capacity_refuses_full:
  "reserve_capacity demo_db_full 500 500000 500001 1 4
     = (Inl (Failure 400 ''No available capacity in this section'' None), demo_db_full)"
  by (simp add: reserve_capacity_def Let_def or0_def demo_db_full_def demo_section_F_def)

text \<open>
  C4. The booking route has no check of the caller's live reservations: user 1, who holds
  the reserved reservation 1 on spot 6, books spot 5 as well; a second reservation row is
  written and spot 5 becomes reserved.
\<close>

theorem book_accepts_live_holder:
  "r_user_id demo_res_spot6 = 1 \<and> live demo_res_spot6
   \<and> demo_res_spot6 \<in> set (reservations demo_db_spots)
   \<and> book demo_db_spots id 500 demo_toDataURL demo_uuid 1 10 5 1
     = (Inr \<lparr> bk_reservationId = 2, bk_qrCode = demo_toDataURL (qr_payload demo_uuid),
              bk_qrKey = demo_uuid, bk_status = ''reserved'' \<rparr>,
        demo_db_spots
          \<lparr> parking_spot := [demo_spot5\<lparr> spot_status := ''reserved'' \<rparr>, demo_spot6],
            reservations :=
              [demo_res_spot6,
               \<lparr> r_reservation_id = 2, r_user_id = 1, r_vehicle_id = Some 10,
                 r_parking_spots_id = 5, r_parking_section_id = Some 2,
                 r_spot_number = Some ''C-05'', r_time_stamp = 500,
                 r_start_time = None, r_end_time = None, r_booking_status = ''reserved'',
                 r_QR = demo_toDataURL (qr_payload demo_uuid),
                 r_qr_key = Some demo_uuid \<rparr>] \<rparr>)"
  by code_simp

text \<open>
  The assign route looks for an active session only: user 1, whose reservation 2 is
  reserved, is assigned to A-3 as well.
\<close>

lemma assign_accepts_reserved_holder:
  "r_user_id demo_res_reserved = 1 \<and> live demo_res_reserved
   \<and> fst (assign demo_db 500 demo_toDataURL demo_uuid 1 1 ''A-3'' 12)
     = Inr \<lparr> bk_reservationId = 3, bk_qrCode = demo_toDataURL (qr_payload demo_uuid),
              bk_qrKey = demo_uuid, bk_status = ''reserved'' \<rparr>"
  by (simp add: assign_def Let_def insertId_def live_def
        demo_db_def demo_res_reserved_def demo_res_active_def demo_section_A_def
        demo_vehicles_def)

text \<open>
  C5. The end-session route updates by reservation id alone and does not look at the
  affected rows: ending the already completed reservation 1 again succeeds, moves its
  end time from 300 to 500, and sets spot 6 to available although user 2 holds the live
  reservation 2 on it.
\<close>

theorem end_session_repeats_transition:
  "end_session demo_db_stale 500 1 1
     = (Inr ''Parking session ended successfully'',
        demo_db_stale
          \<lparr> reservations :=
              [demo_res_spot6\<lparr> r_booking_status := ''completed'', r_start_time := Some 100,
                               r_end_time := Some 500 \<rparr>,
               \<lparr> r_reservation_id = 2, r_user_id = 2, r_vehicle_id = Some 11,
                 r_parking_spots_id = 6, r_parking_section_id = Some 2,
                 r_spot_number = Some ''C-06'', r_time_stamp = 400,
                 r_start_time = None, r_end_time = None, r_booking_status = ''reserved'',
                 r_QR = ''img2'', r_qr_key = Some ''k2'' \<rparr>],
            parking_spot := [demo_spot5, demo_spot6\<lparr> spot_status := ''available'' \<rparr>] \<rparr>)"
  by (simp add: end_session_def update_where_def
        demo_db_stale_def demo_res_spot6_def demo_spot5_def demo_spot6_def)

subsection \<open>Virtual spots\<close>










text \<open>
  The booking route does write such a repeated label: with one reservation reserved in
  section A, the next booking is labelled A-2 although A-2 is taken.
\<close>

lemma bookMotorcycleSection_repeats_label:
  "map r_spot_number (reservations (snd (book demo_db id 500 demo_toDataURL demo_uuid 1 12 1 1)))
     = [Some ''A-2'', Some ''A-1'', Some ''A-2'']"
  by code_simp



subsection \<open>Booking a discrete spot\<close>

lemma filter_eq_ConsD:
  assumes "filter P xs = y # ys"
  shows "y \<in> set xs \<and> P y"
proof -
  have "y \<in> set (filter P xs)" by (simp add: assms)
  then show ?thesis by simp
qed

lemma book_checks_Discrete:
  assumes "book_checks d userId vehicleId spotId areaId = Inr (Discrete vehicle spot)"
  shows "spot \<in> set (parking_spot d)" and "spot_parking_spot_id spot = spotId"
    and "spot_status spot = ''available''"
    and "vehicle \<in> set (vehicles d)" and "v_vehicle_id vehicle = vehicleId"
    and "toLowerCase (v_vehicle_type vehicle) \<noteq> ''motorcycle''"
    and "\<exists>rest. filter (\<lambda>v. v_vehicle_id v = vehicleId) (vehicles d) = vehicle # rest"
    and "vehicleId \<noteq> 0" and "spotId \<noteq> 0"
  using assms
  by (auto simp: book_checks_def Let_def split: if_splits list.splits dest: filter_eq_ConsD)

lemma book_Discrete:
  "book_checks d userId vehicleId spotId areaId = Inr (Discrete vehicle spot) \<Longrightarrow>
   book d others now toDataURL qrKey userId vehicleId spotId areaId
     = book_reserve (others d) now toDataURL qrKey userId vehicleId spotId"
  by (simp add: book_def)

lemma book_reserve_conflict:
  "affectedRows (\<lambda>s. spot_parking_spot_id s = spotId \<and> spot_status s = ''available'')
     (parking_spot d) = 0 \<Longrightarrow>
   book_reserve d now toDataURL qrKey userId vehicleId spotId
     = (Inl (Failure 400
               ''Parking spot was just booked by another user. Please try a different spot.''
               (Some ''SPOT_ALREADY_BOOKED'')), d)"
  by (simp add: book_reserve_def Let_def)

lemma book_reserve_success:
  assumes "affectedRows (\<lambda>s. spot_parking_spot_id s = spotId \<and> spot_status s = ''available'')
             (parking_spot d) \<noteq> 0"
  shows "book_reserve d now toDataURL qrKey userId vehicleId spotId
           = (Inr \<lparr> bk_reservationId = insertId (map r_reservation_id (reservations d)),
                    bk_qrCode = toDataURL (qr_payload qrKey),
                    bk_qrKey = qrKey, bk_status = ''reserved'' \<rparr>,
              d\<lparr> parking_spot := booked_spots d spotId,
                 reservations :=
                   set_QR (insertId (map r_reservation_id (reservations d)))
                     (toDataURL (qr_payload qrKey))
                     (reservations d @ [booked_row d now qrKey userId vehicleId spotId]) \<rparr>)"
  using assms by (simp add: book_reserve_def Let_def booked_spots_def booked_row_def)

lemma booked_row_fields:
  "r_reservation_id (booked_row d now qrKey userId vehicleId spotId)
     = insertId (map r_reservation_id (reservations d))"
  "r_user_id (booked_row d now qrKey userId vehicleId spotId) = userId"
  "r_vehicle_id (booked_row d now qrKey userId vehicleId spotId) = Some vehicleId"
  "r_parking_spots_id (booked_row d now qrKey userId vehicleId spotId) = spotId"
  "r_booking_status (booked_row d now qrKey userId vehicleId spotId) = ''reserved''"
  "r_qr_key (booked_row d now qrKey userId vehicleId spotId) = Some qrKey"
  by (simp_all add: booked_row_def book_row_def Let_def)

lemma set_QR_append_new:
  "r_reservation_id row = rid \<Longrightarrow>
   set_QR rid url (rows @ [row]) = set_QR rid url rows @ [row\<lparr> r_QR := url \<rparr>]"
  by (simp add: set_QR_def update_where_def)

lemma length_set_QR [simp]: "length (set_QR rid url rows) = length rows"
  by (simp add: set_QR_def)

lemma booked_spots_reserved:
  assumes "affectedRows (\<lambda>s. spot_parking_spot_id s = spotId \<and> spot_status s = ''available'')
             (parking_spot d) \<noteq> 0"
  shows "\<exists>s \<in> set (booked_spots d spotId).
           spot_parking_spot_id s = spotId \<and> spot_status s = ''reserved''"
proof -
  obtain s0 where s0: "s0 \<in> set (parking_spot d)" "spot_parking_spot_id s0 = spotId"
      "spot_status s0 = ''available''"
    using assms by (auto simp: affectedRows_zero_iff)
  have "s0\<lparr> spot_status := ''reserved'' \<rparr> \<in> set (booked_spots d spotId)"
    unfolding booked_spots_def using s0 by (intro update_where_hit) simp_all
  moreover have "spot_parking_spot_id (s0\<lparr> spot_status := ''reserved'' \<rparr>) = spotId"
    using s0 by simp
  moreover have "spot_status (s0\<lparr> spot_status := ''reserved'' \<rparr>) = ''reserved''" by simp
  ultimately show ?thesis by blast
qed

lemma booked_spots_none_available:
  assumes "s \<in> set (booked_spots d spotId)" and "spot_parking_spot_id s = spotId"
  shows "spot_status s \<noteq> ''available''"
proof -
  have "spot_parking_spot_id s = spotId \<longrightarrow> spot_status s \<noteq> ''available''"
    using assms(1) unfolding booked_spots_def
    by (rule update_where_all[rotated 2]) simp_all
  then show ?thesis using assms(2) by simp
qed

text \<open>
  C1. When the checks of a booking on a discrete spot pass, the row read under the lock
  was available. If the conditional update then affects no row (another connection has
  taken the spot in between), the call fails with the typed code SPOT_ALREADY_BOOKED and
  leaves the store as the other connection left it: no reservation row is written. If it
  affects a row, the call succeeds, writes exactly one reservation row, in status
  reserved, and leaves the spot reserved.
\<close>

theorem book_conditional_update:
  assumes "book_checks d userId vehicleId spotId areaId = Inr (Discrete vehicle spot)"
  shows "(spot \<in> set (parking_spot d) \<and> spot_parking_spot_id spot = spotId
            \<and> spot_status spot = ''available'')
   \<and> (affectedRows (\<lambda>s. spot_parking_spot_id s = spotId \<and> spot_status s = ''available'')
          (parking_spot (others d)) = 0
       \<longrightarrow> book d others now toDataURL qrKey userId vehicleId spotId areaId
             = (Inl (Failure 400
                       ''Parking spot was just booked by another user. Please try a different spot.''
                       (Some ''SPOT_ALREADY_BOOKED'')), others d))
   \<and> (affectedRows (\<lambda>s. spot_parking_spot_id s = spotId \<and> spot_status s = ''available'')
          (parking_spot (others2 d)) \<noteq> 0
       \<longrightarrow> (\<exists>b d'. book d others2 now toDataURL qrKey userId vehicleId spotId areaId = (Inr b, d')
              \<and> bk_status b = ''reserved''
              \<and> (\<exists>s \<in> set (parking_spot d').
                    spot_parking_spot_id s = spotId \<and> spot_status s = ''reserved'')
              \<and> (\<forall>s \<in> set (parking_spot d').
                    spot_parking_spot_id s = spotId \<longrightarrow> spot_status s \<noteq> ''available'')
              \<and> length (reservations d') = Suc (length (reservations (others2 d)))
              \<and> (\<exists>r \<in> set (reservations d').
                    r_reservation_id r = bk_reservationId b \<and> r_user_id r = userId
                    \<and> r_parking_spots_id r = spotId \<and> r_booking_status r = ''reserved'')))"
proof (intro conjI impI)
  show "spot \<in> set (parking_spot d)" "spot_parking_spot_id spot = spotId"
    "spot_status spot = ''available''"
    using book_checks_Discrete[OF assms] by simp_all
next
  assume "affectedRows (\<lambda>s. spot_parking_spot_id s = spotId \<and> spot_status s = ''available'')
            (parking_spot (others d)) = 0"
  then show "book d others now toDataURL qrKey userId vehicleId spotId areaId
             = (Inl (Failure 400
                       ''Parking spot was just booked by another user. Please try a different spot.''
                       (Some ''SPOT_ALREADY_BOOKED'')), others d)"
    by (simp only: book_Discrete[OF assms] book_reserve_conflict)
next
  define e where "e = others2 d"
  define rid where "rid = insertId (map r_reservation_id (reservations e))"
  define url where "url = toDataURL (qr_payload qrKey)"
  define row where "row = booked_row e now qrKey userId vehicleId spotId"
  define b where "b = \<lparr> bk_reservationId = rid, bk_qrCode = url, bk_qrKey = qrKey,
                        bk_status = ''reserved'' \<rparr>"
  define d' where "d' = e\<lparr> parking_spot := booked_spots e spotId,
                            reservations := set_QR rid url (reservations e @ [row]) \<rparr>"
  assume "affectedRows (\<lambda>s. spot_parking_spot_id s = spotId \<and> spot_status s = ''available'')
            (parking_spot (others2 d)) \<noteq> 0"
  then have nz: "affectedRows (\<lambda>s. spot_parking_spot_id s = spotId \<and> spot_status s = ''available'')
            (parking_spot e) \<noteq> 0"
    by (simp add: e_def)
  have b1: "book d others2 now toDataURL qrKey userId vehicleId spotId areaId = (Inr b, d')"
    unfolding book_Discrete[OF assms] b_def d'_def rid_def url_def row_def e_def[symmetric]
    by (rule book_reserve_success[OF nz])
  have b0: "bk_status b = ''reserved''" by (simp add: b_def)
  have sp: "parking_spot d' = booked_spots e spotId" by (simp add: d'_def)
  have b2: "\<exists>s \<in> set (parking_spot d').
              spot_parking_spot_id s = spotId \<and> spot_status s = ''reserved''"
    unfolding sp by (rule booked_spots_reserved[OF nz])
  have b3: "\<forall>s \<in> set (parking_spot d').
              spot_parking_spot_id s = spotId \<longrightarrow> spot_status s \<noteq> ''available''"
    unfolding sp using booked_spots_none_available by blast
  have rs: "reservations d' = set_QR rid url (reservations e) @ [row\<lparr> r_QR := url \<rparr>]"
    by (simp add: d'_def set_QR_append_new row_def rid_def booked_row_fields)
  have b4: "length (reservations d') = Suc (length (reservations (others2 d)))"
    by (simp add: rs e_def)
  have "row\<lparr> r_QR := url \<rparr> \<in> set (reservations d')" by (simp add: rs)
  moreover have "r_reservation_id (row\<lparr> r_QR := url \<rparr>) = bk_reservationId b"
    "r_user_id (row\<lparr> r_QR := url \<rparr>) = userId"
    "r_parking_spots_id (row\<lparr> r_QR := url \<rparr>) = spotId"
    "r_booking_status (row\<lparr> r_QR := url \<rparr>) = ''reserved''"
    by (simp_all add: row_def b_def rid_def booked_row_fields)
  ultimately have b5: "\<exists>r \<in> set (reservations d').
              r_reservation_id r = bk_reservationId b \<and> r_user_id r = userId
              \<and> r_parking_spots_id r = spotId \<and> r_booking_status r = ''reserved''"
    by blast
  show "\<exists>b d'. book d others2 now toDataURL qrKey userId vehicleId spotId areaId = (Inr b, d')
              \<and> bk_status b = ''reserved''
              \<and> (\<exists>s \<in> set (parking_spot d').
                    spot_parking_spot_id s = spotId \<and> spot_status s = ''reserved'')
              \<and> (\<forall>s \<in> set (parking_spot d').
                    spot_parking_spot_id s = spotId \<longrightarrow> spot_status s \<noteq> ''available'')
              \<and> length (reservations d') = Suc (length (reservations (others2 d)))
              \<and> (\<exists>r \<in> set (reservations d').
                    r_reservation_id r = bk_reservationId b \<and> r_user_id r = userId
                    \<and> r_parking_spots_id r = spotId \<and> r_booking_status r = ''reserved'')"
    by (rule exI[of _ b], rule exI[of _ d'], intro conjI b0 b1 b2 b3 b4 b5)
qed

text \<open>
  User 1 books the available spot 5 with a car. When another connection takes the spot
  between the locking read and the update, the call is refused as a lost race and the
  reservations are those of before; left alone, the call succeeds and the spot is
  reserved.
\<close>

theorem book_conditional_update_witness:
  "book_checks demo_db_spots 1 10 5 1 = Inr (Discrete demo_car demo_spot5)
   \<and> book demo_db_spots demo_steal5 500 demo_toDataURL demo_uuid 1 10 5 1
       = (Inl (Failure 400
                 ''Parking spot was just booked by another user. Please try a different spot.''
                 (Some ''SPOT_ALREADY_BOOKED'')), demo_steal5 demo_db_spots)
   \<and> reservations (demo_steal5 demo_db_spots) = reservations demo_db_spots
   \<and> (\<exists>b d'. book demo_db_spots id 500 demo_toDataURL demo_uuid 1 10 5 1 = (Inr b, d')
              \<and> bk_status b = ''reserved''
              \<and> (\<exists>s \<in> set (parking_spot d').
                    spot_parking_spot_id s = 5 \<and> spot_status s = ''reserved'')
              \<and> (\<forall>s \<in> set (parking_spot d').
                    spot_parking_spot_id s = 5 \<longrightarrow> spot_status s \<noteq> ''available'')
              \<and> length (reservations d') = Suc (length (reservations (id demo_db_spots)))
              \<and> (\<exists>r \<in> set (reservations d').
                    r_reservation_id r = bk_reservationId b \<and> r_user_id r = 1
                    \<and> r_parking_spots_id r = 5 \<and> r_booking_status r = ''reserved''))"
proof -
  have h: "book_checks demo_db_spots 1 10 5 1 = Inr (Discrete demo_car demo_spot5)"
    by code_simp
  have z: "affectedRows (\<lambda>s. spot_parking_spot_id s = 5 \<and> spot_status s = ''available'')
             (parking_spot (demo_steal5 demo_db_spots)) = 0"
    by code_simp
  have nz: "affectedRows (\<lambda>s. spot_parking_spot_id s = 5 \<and> spot_status s = ''available'')
             (parking_spot (id demo_db_spots)) \<noteq> 0"
    by code_simp
  have same: "reservations (demo_steal5 demo_db_spots) = reservations demo_db_spots"
    by (simp add: demo_steal5_def)
  note t = book_conditional_update
             [OF h, where others = demo_steal5 and ?others2.0 = id and now = 500
                and toDataURL = demo_toDataURL and qrKey = demo_uuid]
  note t2 = t [THEN conjunct2, THEN conjunct1, THEN mp, OF z]
  note t3 = t [THEN conjunct2, THEN conjunct2, THEN mp, OF nz]
  show ?thesis
    by (rule conjI [OF h conjI [OF t2 conjI [OF same t3]]])
qed

subsection \<open>Tokens\<close>

lemma is_uuid_chars:
  assumes "is_uuid s" and "c \<in> set s"
  shows "c \<in> set ''0123456789abcdef-''"
proof -
  from assms(2) obtain i where i: "i < length s" "s ! i = c"
    by (auto simp: in_set_conv_nth)
  then have "i \<in> set [0 ..< 36]" using assms(1) by (simp add: is_uuid_def)
  with assms(1) have "if i \<in> {8, 13, 18, 23} then s ! i = CHR ''-''
                      else s ! i \<in> set ''0123456789abcdef''"
    unfolding is_uuid_def list_all_iff by blast
  then show ?thesis using i(2) by (auto split: if_splits)
qed

lemma plain_char_escape:
  "c \<in> set ''0123456789abcdef-'' \<Longrightarrow> json_escape_char c = [c]"
  by (auto simp: json_escape_char_def)

lemma plain_char_not_space:
  "c \<in> set ''0123456789abcdef-'' \<Longrightarrow> \<not> is_space c"
  by (auto simp: is_space_def)

lemma plain_char_not_bracket:
  "c \<in> set ''0123456789abcdef-'' \<Longrightarrow> c \<noteq> CHR ''{'' \<and> c \<noteq> CHR ''[''"
  by auto

lemma dropWhile_none: "(\<forall>c \<in> set s. \<not> P c) \<Longrightarrow> dropWhile P s = s"
  by (cases s) auto

lemma trim_plain: "(\<forall>c \<in> set s. \<not> is_space c) \<Longrightarrow> trim s = s"
  by (simp add: trim_def dropWhile_none)

lemma concat_singletons: "(\<forall>c \<in> set s. f c = [c]) \<Longrightarrow> concat (map f s) = s"
  by (induction s) auto

lemma qr_payload_uuid:
  assumes "is_uuid k"
  shows "qr_payload k = [CHR ''{'', CHR 0x22] @ ''qr_key'' @ [CHR 0x22, CHR '':'', CHR 0x22]
                        @ k @ [CHR 0x22, CHR ''}'']"
proof -
  have "concat (map json_escape_char k) = k"
    using is_uuid_chars[OF assms] by (intro concat_singletons) (simp add: plain_char_escape)
  then show ?thesis by (simp add: qr_payload_def)
qed

lemma clean_qr_key_uuid:
  assumes "is_uuid k"
  shows "clean_qr_key JSON_parse (Some k) = Some k"
proof -
  have ne: "k \<noteq> []" using assms by (auto simp: is_uuid_def)
  have t: "trim k = k"
    using is_uuid_chars[OF assms] by (intro trim_plain) (simp add: plain_char_not_space)
  have "hd k \<in> set k" using ne by simp
  then have "hd k \<noteq> CHR ''{'' \<and> hd k \<noteq> CHR ''[''"
    using is_uuid_chars[OF assms] plain_char_not_bracket by blast
  then have "\<not> startsWith k CHR ''{''" "\<not> startsWith k CHR ''[''"
    using ne by (cases k; simp add: startsWith_def)+
  then show ?thesis using ne t by (simp add: clean_qr_key_def Let_def)
qed

lemma clean_qr_key_json:
  assumes "k \<noteq> []" and "startsWith (trim k) CHR ''{'' \<or> startsWith (trim k) CHR ''[''"
    and "\<forall>j. JSON_parse (trim k) = Some j \<longrightarrow> typeof_object j"
  shows "clean_qr_key JSON_parse (Some k) = None"
  using assms by (auto simp: clean_qr_key_def Let_def split: option.splits)

lemma fold_max_ge: "x \<in> set ids \<or> x \<le> a \<Longrightarrow> x \<le> fold max ids (a::nat)"
proof (induction ids arbitrary: a)
  case Nil
  then show ?case by simp
next
  case (Cons i ids)
  have "x \<in> set ids \<or> x \<le> max i a" using Cons.prems by auto
  then show ?case using Cons.IH by simp
qed

lemma insertId_fresh: "x \<in> set ids \<Longrightarrow> x < insertId ids"
  using fold_max_ge[of x ids 0] by (simp add: insertId_def)

lemma set_QR_fresh:
  "(\<forall>r \<in> set rows. r_reservation_id r \<noteq> rid) \<Longrightarrow> set_QR rid url rows = rows"
  by (simp add: set_QR_def update_where_def map_idI)

lemma own_reservations_new:
  assumes "reservations d' = set_QR rid url (rows @ [row])"
    and "rid = insertId (map r_reservation_id rows)"
    and "r_reservation_id row = rid" and "r_user_id row = userId"
  shows "own_reservations d' userId rid = [row\<lparr> r_QR := url \<rparr>]"
proof -
  have fresh: "\<forall>r \<in> set rows. r_reservation_id r \<noteq> rid"
    using insertId_fresh[of _ "map r_reservation_id rows"] assms(2) by fastforce
  then have "set_QR rid url (rows @ [row]) = rows @ [row\<lparr> r_QR := url \<rparr>]"
    by (simp add: set_QR_append_new assms(3) set_QR_fresh)
  then show ?thesis
    using fresh assms(3,4) by (simp add: own_reservations_def assms(1))
qed

lemma bookMotorcycleSection_success:
  assumes "filter (\<lambda>ps. sec_parking_section_id ps = spotId
                        \<and> sec_parking_area_id ps = areaId
                        \<and> sec_vehicle_type ps = ''motorcycle''
                        \<and> sec_section_mode ps = ''capacity_only''
                        \<and> sql_has_capacity ps
                        \<and> sql_not_unavailable ps) (parking_section d) = sect # rest"
  shows "bookMotorcycleSection d now toDataURL qrKey userId vehicleId spotId areaId
           = (Inr \<lparr> bk_reservationId = insertId (map r_reservation_id (reservations d)),
                    bk_qrCode = toDataURL (qr_payload qrKey),
                    bk_qrKey = qrKey, bk_status = ''reserved'' \<rparr>,
              d\<lparr> reservations :=
                   set_QR (insertId (map r_reservation_id (reservations d)))
                     (toDataURL (qr_payload qrKey))
                     (reservations d
                      @ [section_row sect (insertId (map r_reservation_id (reservations d)))
                           now qrKey userId vehicleId]),
                 parking_section :=
                   update_where
                     (\<lambda>ps. sec_parking_section_id ps = sec_parking_section_id sect)
                     (\<lambda>ps. ps\<lparr> sec_reserved_count := sql_add (sec_reserved_count ps) 1 \<rparr>)
                     (parking_section d) \<rparr>)"
  by (simp add: bookMotorcycleSection_def assms Let_def)

lemma bookMotorcycleSection_failure:
  assumes "filter (\<lambda>ps. sec_parking_section_id ps = spotId
                        \<and> sec_parking_area_id ps = areaId
                        \<and> sec_vehicle_type ps = ''motorcycle''
                        \<and> sec_section_mode ps = ''capacity_only''
                        \<and> sql_has_capacity ps
                        \<and> sql_not_unavailable ps) (parking_section d) = []"
  shows "fst (bookMotorcycleSection d now toDataURL qrKey userId vehicleId spotId areaId)
           = Inl (Failure 400
                    ''Recommended section is no longer available or is full/unavailable''
                    (Some ''SECTION_NOT_AVAILABLE''))"
  by (simp add: bookMotorcycleSection_def assms)

lemma section_row_fields:
  "r_reservation_id (section_row sect rid now qrKey userId vehicleId) = rid"
  "r_user_id (section_row sect rid now qrKey userId vehicleId) = userId"
  "r_vehicle_id (section_row sect rid now qrKey userId vehicleId) = Some vehicleId"
  "r_parking_spots_id (section_row sect rid now qrKey userId vehicleId) = 0"
  "r_parking_section_id (section_row sect rid now qrKey userId vehicleId)
     = Some (sec_parking_section_id sect)"
  "r_qr_key (section_row sect rid now qrKey userId vehicleId) = Some qrKey"
  by (simp_all add: section_row_def Let_def)

text \<open>
  What a successful booking leaves, on either path: the booking answered and the only
  reservation row of the caller under the new id.
\<close>

lemma book_success_row:
  assumes "book d others now toDataURL qrKey userId vehicleId spotId areaId = (Inr b, d')"
  shows "bk_qrKey b = qrKey \<and> bk_qrCode b = toDataURL (qr_payload qrKey)
         \<and> (\<exists>row. own_reservations d' userId (bk_reservationId b) = [row]
                \<and> r_reservation_id row = bk_reservationId b
                \<and> r_qr_key row = Some qrKey
                \<and> r_QR row = toDataURL (qr_payload qrKey)
                \<and> r_vehicle_id row = Some vehicleId)"
proof (cases "book_checks d userId vehicleId spotId areaId")
  case (Inl f)
  then show ?thesis using assms by (simp add: book_def)
next
  case (Inr c)
  show ?thesis
  proof (cases c)
    case (Motorcycle vehicle)
    let ?F = "filter (\<lambda>ps. sec_parking_section_id ps = spotId
                        \<and> sec_parking_area_id ps = areaId
                        \<and> sec_vehicle_type ps = ''motorcycle''
                        \<and> sec_section_mode ps = ''capacity_only''
                        \<and> sql_has_capacity ps
                        \<and> sql_not_unavailable ps) (parking_section d)"
    have bk: "book d others now toDataURL qrKey userId vehicleId spotId areaId
               = bookMotorcycleSection d now toDataURL qrKey userId vehicleId spotId areaId"
      using Inr Motorcycle by (simp add: book_def)
    show ?thesis
    proof (cases ?F)
      case Nil
      from bookMotorcycleSection_failure[OF Nil, of now toDataURL qrKey userId vehicleId]
      show ?thesis using assms bk by simp
    next
      case (Cons sect rest)
      let ?rid = "insertId (map r_reservation_id (reservations d))"
      let ?row = "section_row sect ?rid now qrKey userId vehicleId"
      note eq = bookMotorcycleSection_success[OF Cons, of now toDataURL qrKey userId vehicleId]
      have b: "b = \<lparr> bk_reservationId = ?rid, bk_qrCode = toDataURL (qr_payload qrKey),
                      bk_qrKey = qrKey, bk_status = ''reserved'' \<rparr>"
        and rs: "reservations d' = set_QR ?rid (toDataURL (qr_payload qrKey)) (reservations d @ [?row])"
        using assms bk eq by auto
      have own: "own_reservations d' userId ?rid = [?row\<lparr> r_QR := toDataURL (qr_payload qrKey) \<rparr>]"
        by (rule own_reservations_new[OF rs refl]) (simp_all add: section_row_fields)
      show ?thesis
        using own by (simp add: b section_row_fields)
    qed
  next
    case (Discrete vehicle spot)
    let ?e = "others d"
    have bk: "book d others now toDataURL qrKey userId vehicleId spotId areaId
               = book_reserve ?e now toDataURL qrKey userId vehicleId spotId"
      using Inr Discrete by (simp add: book_def)
    show ?thesis
    proof (cases "affectedRows (\<lambda>s. spot_parking_spot_id s = spotId \<and> spot_status s = ''available'')
                    (parking_spot ?e) = 0")
      case True
      from book_reserve_conflict[OF True, of now toDataURL qrKey userId vehicleId]
      show ?thesis using assms bk by simp
    next
      case False
      let ?rid = "insertId (map r_reservation_id (reservations ?e))"
      let ?row = "booked_row ?e now qrKey userId vehicleId spotId"
      note eq = book_reserve_success[OF False, of now toDataURL qrKey userId vehicleId]
      have b: "b = \<lparr> bk_reservationId = ?rid, bk_qrCode = toDataURL (qr_payload qrKey),
                      bk_qrKey = qrKey, bk_status = ''reserved'' \<rparr>"
        and rs: "reservations d' = set_QR ?rid (toDataURL (qr_payload qrKey)) (reservations ?e @ [?row])"
        using assms bk eq by auto
      have own: "own_reservations d' userId ?rid = [?row\<lparr> r_QR := toDataURL (qr_payload qrKey) \<rparr>]"
        by (rule own_reservations_new[OF rs refl]) (simp_all add: booked_row_fields)
      show ?thesis
        using own by (simp add: b booked_row_fields)
    qed
  qed
qed

lemma spot_details_own:
  "x \<in> set (spot_details d userId rid) \<Longrightarrow> fst x \<in> set (own_reservations d userId rid)"
  by (auto simp: spot_details_def)

lemma section_details_by_section_id_own:
  "x \<in> set (section_details_by_section_id d userId rid)
   \<Longrightarrow> fst x \<in> set (own_reservations d userId rid)"
  by (auto simp: section_details_by_section_id_def)

lemma section_details_by_spots_id_own:
  "x \<in> set (section_details_by_spots_id d userId rid)
   \<Longrightarrow> fst x \<in> set (own_reservations d userId rid)"
  by (auto simp: section_details_by_spots_id_def)

lemma details_response_fields:
  "bd_reservationId (details_response JSON_parse x) = r_reservation_id (fst x)"
  "bd_qrKey (details_response JSON_parse x) = clean_qr_key JSON_parse (r_qr_key (fst x))"
  "bd_qrCode (details_response JSON_parse x) = r_QR (fst x)"
  by (simp_all add: details_response_def split: prod.splits)

lemma get_booking_cases:
  assumes "get_booking d JSON_parse userId rid = Inr details"
  shows "\<exists>L. (L = spot_details d userId rid
               \<or> L = section_details_by_section_id d userId rid
               \<or> L = section_details_by_spots_id d userId rid)
              \<and> L \<noteq> [] \<and> details = details_response JSON_parse (hd L)"
proof -
  obtain r rest where own: "own_reservations d userId rid = r # rest"
    using assms by (cases "own_reservations d userId rid") (simp_all add: get_booking_def)
  define found where "found =
    (if (case vehicleCheck_of d userId rid of [] \<Rightarrow> False | t # _ \<Rightarrow> t = ''motorcycle'') then
       if r_parking_spots_id r = 0
       then Inr (section_details_by_section_id d userId rid)
       else if filter (\<lambda>ps. sec_parking_section_id ps = r_parking_spots_id r)
                 (parking_section d) \<noteq> []
       then Inr (section_details_by_spots_id d userId rid)
       else Inl (Failure 404 ''Motorcycle section not found'' None)
     else Inr (spot_details d userId rid))"
  have g: "get_booking d JSON_parse userId rid =
      (case found of
         Inl f \<Rightarrow> Inl f
       | Inr [] \<Rightarrow> Inl (Failure 404 ''Booking not found or does not belong to user'' None)
       | Inr (booking # _) \<Rightarrow> Inr (details_response JSON_parse booking))"
    by (simp add: get_booking_def own Let_def found_def)
  from assms obtain L where fL: "found = Inr L" and ne: "L \<noteq> []"
    and det: "details = details_response JSON_parse (hd L)"
    unfolding g by (cases found; cases "projr found") auto
  have "L = spot_details d userId rid
        \<or> L = section_details_by_section_id d userId rid
        \<or> L = section_details_by_spots_id d userId rid"
    using fL unfolding found_def by (auto split: if_splits)
  then show ?thesis using ne det by blast
qed

text \<open>Whatever the handler answers, it answers from a reservation row of the caller.\<close>

lemma get_booking_sound:
  assumes "get_booking d JSON_parse userId rid = Inr details"
  shows "\<exists>r \<in> set (own_reservations d userId rid).
           bd_reservationId details = r_reservation_id r
           \<and> bd_qrKey details = clean_qr_key JSON_parse (r_qr_key r)
           \<and> bd_qrCode details = r_QR r"
proof -
  from get_booking_cases[OF assms] obtain L where
    L: "L = spot_details d userId rid
        \<or> L = section_details_by_section_id d userId rid
        \<or> L = section_details_by_spots_id d userId rid"
    and ne: "L \<noteq> []" and det: "details = details_response JSON_parse (hd L)"
    by blast
  have "hd L \<in> set L" using ne by simp
  with L have "fst (hd L) \<in> set (own_reservations d userId rid)"
    using spot_details_own[of "hd L" d userId rid]
      section_details_by_section_id_own[of "hd L" d userId rid]
      section_details_by_spots_id_own[of "hd L" d userId rid]
    by auto
  then show ?thesis
    unfolding det details_response_fields by blast
qed

lemma concat_map_if:
  "concat (map (\<lambda>x. if P x then [f x] else []) xs) = map f (filter P xs)"
  by (induction xs) simp_all

lemma vehicleCheck_single:
  "own_reservations d userId rid = [r] \<Longrightarrow>
   vehicleCheck_of d userId rid
     = map v_vehicle_type (filter (\<lambda>v. r_vehicle_id r = Some (v_vehicle_id v)) (vehicles d))"
  by (simp add: vehicleCheck_of_def concat_map_if)

lemma book_checks_Motorcycle:
  assumes "book_checks d userId vehicleId spotId areaId = Inr (Motorcycle vehicle)"
  shows "vehicle \<in> set (vehicles d)" and "v_vehicle_id vehicle = vehicleId"
    and "toLowerCase (v_vehicle_type vehicle) = ''motorcycle''"
    and "\<exists>rest. filter (\<lambda>v. v_vehicle_id v = vehicleId) (vehicles d) = vehicle # rest"
  using assms
  by (auto simp: book_checks_def Let_def split: if_splits list.splits dest: filter_eq_ConsD)

lemma spot_details_nonempty:
  assumes "r \<in> set (own_reservations d userId rid)"
    and "u \<in> set (users d)" and "r_user_id r = u_user_id u"
    and "v \<in> set (vehicles d)" and "r_vehicle_id r = Some (v_vehicle_id v)"
    and "ps \<in> set (parking_spot d)" and "r_parking_spots_id r = spot_parking_spot_id ps"
    and "psec \<in> set (parking_section d)"
    and "spot_parking_section_id ps = sec_parking_section_id psec"
    and "pa \<in> set (parking_area d)" and "sec_parking_area_id psec = pa_parking_area_id pa"
  shows "spot_details d userId rid \<noteq> []"
proof -
  have "(r, u, v, Some (spot_spot_number ps), spot_spot_type ps, psec, pa)
          \<in> set (spot_details d userId rid)"
    using assms by (simp add: spot_details_def) blast
  then show ?thesis by auto
qed

lemma section_details_nonempty:
  assumes "r \<in> set (own_reservations d userId rid)"
    and "u \<in> set (users d)" and "r_user_id r = u_user_id u"
    and "v \<in> set (vehicles d)" and "r_vehicle_id r = Some (v_vehicle_id v)"
    and "ps \<in> set (parking_section d)"
    and "r_parking_section_id r = Some (sec_parking_section_id ps)"
    and "pa \<in> set (parking_area d)" and "sec_parking_area_id ps = pa_parking_area_id pa"
  shows "section_details_by_section_id d userId rid \<noteq> []"
proof -
  have "(r, u, v, r_spot_number r, ''motorcycle'', ps, pa)
          \<in> set (section_details_by_section_id d userId rid)"
    using assms by (simp add: section_details_by_section_id_def)
  then show ?thesis by auto
qed

lemma get_booking_spot_path:
  assumes "own_reservations d userId rid = [r]"
    and "vehicleCheck_of d userId rid = t # ts" and "t \<noteq> ''motorcycle''"
    and "spot_details d userId rid \<noteq> []"
  shows "\<exists>details. get_booking d JSON_parse userId rid = Inr details"
  using assms by (cases "spot_details d userId rid") (simp_all add: get_booking_def Let_def)

lemma get_booking_section_path:
  assumes "own_reservations d userId rid = [r]" and "r_parking_spots_id r = 0"
    and "vehicleCheck_of d userId rid = ''motorcycle'' # ts"
    and "section_details_by_section_id d userId rid \<noteq> []"
  shows "\<exists>details. get_booking d JSON_parse userId rid = Inr details"
  using assms
  by (cases "section_details_by_section_id d userId rid") (simp_all add: get_booking_def Let_def)

lemma booked_spots_section:
  assumes "s \<in> set (booked_spots d spotId)"
  shows "\<exists>s0 \<in> set (parking_spot d). spot_parking_section_id s = spot_parking_section_id s0"
  using assms unfolding booked_spots_def
  by (rule update_where_all[rotated 2]) auto

text \<open>
  With the foreign keys in place and motorcycles stored under the lower-case type, the
  booking just made can be resolved.
\<close>

lemma book_then_get_booking:
  assumes bk: "book d id now toDataURL qrKey userId vehicleId spotId areaId = (Inr b, d')"
    and usr: "\<exists>u \<in> set (users d). u_user_id u = userId"
    and fk1: "\<forall>ps \<in> set (parking_spot d). \<exists>psec \<in> set (parking_section d).
                sec_parking_section_id psec = spot_parking_section_id ps"
    and fk2: "\<forall>psec \<in> set (parking_section d). \<exists>pa \<in> set (parking_area d).
                pa_parking_area_id pa = sec_parking_area_id psec"
    and lc: "\<forall>v \<in> set (vehicles d). toLowerCase (v_vehicle_type v) = ''motorcycle''
                \<longrightarrow> v_vehicle_type v = ''motorcycle''"
  shows "\<exists>details. get_booking d' JSON_parse userId (bk_reservationId b) = Inr details"
proof -
  from usr obtain u where u: "u \<in> set (users d)" "u_user_id u = userId" by blast
  show ?thesis
  proof (cases "book_checks d userId vehicleId spotId areaId")
    case (Inl f)
    then show ?thesis using bk by (simp add: book_def)
  next
    case (Inr c)
    show ?thesis
    proof (cases c)
      case (Motorcycle vehicle)
      note chk = book_checks_Motorcycle[OF Inr[unfolded Motorcycle]]
      let ?F = "filter (\<lambda>ps. sec_parking_section_id ps = spotId
                        \<and> sec_parking_area_id ps = areaId
                        \<and> sec_vehicle_type ps = ''motorcycle''
                        \<and> sec_section_mode ps = ''capacity_only''
                        \<and> sql_has_capacity ps
                        \<and> sql_not_unavailable ps) (parking_section d)"
      have bkm: "book d id now toDataURL qrKey userId vehicleId spotId areaId
               = bookMotorcycleSection d now toDataURL qrKey userId vehicleId spotId areaId"
        using Inr Motorcycle by (simp add: book_def)
      show ?thesis
      proof (cases ?F)
        case Nil
        from bookMotorcycleSection_failure[OF Nil, of now toDataURL qrKey userId vehicleId]
        show ?thesis using bk bkm by simp
      next
        case (Cons sect rest)
        define rid where "rid = insertId (map r_reservation_id (reservations d))"
        define url where "url = toDataURL (qr_payload qrKey)"
        define row where "row = section_row sect rid now qrKey userId vehicleId"
        define upd :: "psection \<Rightarrow> psection"
          where "upd = (\<lambda>ps. ps\<lparr> sec_reserved_count := sql_add (sec_reserved_count ps) 1 \<rparr>)"
        note eq = bookMotorcycleSection_success[OF Cons, of now toDataURL qrKey userId vehicleId,
                    folded rid_def url_def row_def upd_def]
        have b: "bk_reservationId b = rid"
          and rs: "reservations d' = set_QR rid url (reservations d @ [row])"
          and secs: "parking_section d'
                      = update_where (\<lambda>ps. sec_parking_section_id ps = sec_parking_section_id sect)
                          upd (parking_section d)"
          and same: "users d' = users d" "vehicles d' = vehicles d" "parking_area d' = parking_area d"
          using bk bkm eq by (auto simp: row_def)
        have own: "own_reservations d' userId rid = [row\<lparr> r_QR := url \<rparr>]"
          by (rule own_reservations_new[OF rs rid_def])
             (simp_all add: row_def section_row_fields)
        from chk(4) obtain vs where vs: "filter (\<lambda>v. v_vehicle_id v = vehicleId) (vehicles d) = vehicle # vs"
          by blast
        have "v_vehicle_type vehicle = ''motorcycle''" using lc chk(1,3) by blast
        moreover have "filter (\<lambda>v. vehicleId = v_vehicle_id v) (vehicles d)
                         = filter (\<lambda>v. v_vehicle_id v = vehicleId) (vehicles d)"
          by (rule filter_cong) auto
        ultimately have vc: "vehicleCheck_of d' userId rid = ''motorcycle'' # map v_vehicle_type vs"
          using vs by (simp add: vehicleCheck_single[OF own] same row_def section_row_fields)
        have sect: "sect \<in> set (parking_section d)"
          using filter_eq_ConsD[OF Cons] by simp
        then obtain pa where pa: "pa \<in> set (parking_area d)"
            "pa_parking_area_id pa = sec_parking_area_id sect"
          using fk2 by blast
        have in': "upd sect \<in> set (parking_section d')"
          unfolding secs using sect by (intro update_where_hit) simp_all
        have ne: "section_details_by_section_id d' userId rid \<noteq> []"
          by (rule section_details_nonempty[of "row\<lparr> r_QR := url \<rparr>" _ _ _ u vehicle "upd sect" pa])
             (use own u chk pa in' in \<open>simp_all add: same row_def section_row_fields upd_def\<close>)
        show ?thesis
          unfolding b
          by (rule get_booking_section_path[OF own _ vc ne]) (simp add: row_def section_row_fields)
      qed
    next
      case (Discrete vehicle spot)
      note chk = book_checks_Discrete[OF Inr[unfolded Discrete]]
      have bkd: "book d id now toDataURL qrKey userId vehicleId spotId areaId
               = book_reserve d now toDataURL qrKey userId vehicleId spotId"
        using Inr Discrete by (simp add: book_def)
      show ?thesis
      proof (cases "affectedRows (\<lambda>s. spot_parking_spot_id s = spotId \<and> spot_status s = ''available'')
                    (parking_spot d) = 0")
        case True
        from book_reserve_conflict[OF True, of now toDataURL qrKey userId vehicleId]
        show ?thesis using bk bkd by simp
      next
        case False
        define rid where "rid = insertId (map r_reservation_id (reservations d))"
        define url where "url = toDataURL (qr_payload qrKey)"
        define row where "row = booked_row d now qrKey userId vehicleId spotId"
        note eq = book_reserve_success[OF False, of now toDataURL qrKey userId vehicleId,
                    folded rid_def url_def row_def]
        have b: "bk_reservationId b = rid"
          and rs: "reservations d' = set_QR rid url (reservations d @ [row])"
          and spots: "parking_spot d' = booked_spots d spotId"
          and same: "users d' = users d" "vehicles d' = vehicles d"
             "parking_area d' = parking_area d" "parking_section d' = parking_section d"
          using bk bkd eq by (auto simp: row_def)
        have own: "own_reservations d' userId rid = [row\<lparr> r_QR := url \<rparr>]"
          by (rule own_reservations_new[OF rs rid_def])
             (simp_all add: row_def rid_def booked_row_fields)
        from chk(7) obtain vs where vs: "filter (\<lambda>v. v_vehicle_id v = vehicleId) (vehicles d) = vehicle # vs"
          by blast
        have nm: "v_vehicle_type vehicle \<noteq> ''motorcycle''"
          using chk(6) by (auto simp: toLowerCase_def to_lower_char_def)
        have "filter (\<lambda>v. vehicleId = v_vehicle_id v) (vehicles d)
                = filter (\<lambda>v. v_vehicle_id v = vehicleId) (vehicles d)"
          by (rule filter_cong) auto
        then have vc: "vehicleCheck_of d' userId rid = v_vehicle_type vehicle # map v_vehicle_type vs"
          using vs by (simp add: vehicleCheck_single[OF own] same row_def booked_row_fields)
        from booked_spots_reserved[OF False] obtain s where
          s: "s \<in> set (booked_spots d spotId)" "spot_parking_spot_id s = spotId"
          by blast
        from booked_spots_section[OF s(1)] fk1 obtain psec where
          psec: "psec \<in> set (parking_section d)"
            "sec_parking_section_id psec = spot_parking_section_id s"
          by metis
        from fk2 psec(1) obtain pa where pa: "pa \<in> set (parking_area d)"
            "pa_parking_area_id pa = sec_parking_area_id psec"
          by blast
        have ne: "spot_details d' userId rid \<noteq> []"
          by (rule spot_details_nonempty[of "row\<lparr> r_QR := url \<rparr>" _ _ _ u vehicle s psec pa])
             (use own u chk s psec pa in \<open>simp_all add: same spots row_def booked_row_fields\<close>)
        show ?thesis
          unfolding b by (rule get_booking_spot_path[OF own vc nm ne])
      qed
    qed
  qed
qed

text \<open>
  For a key of the shape \<open>uuid.v4()\<close> returns: a booking that succeeds answers the
  key and an image whose payload is the JSON object with the single member \<open>qr_key\<close>,
  the key; it leaves exactly one row of the caller under the new reservation id, holding
  the key and the image; and whatever the booking-details route answers for that id
  carries the same reservation id, key and image. With the foreign keys in place and
  motorcycles stored under the lower-case type, the route does answer. A stored key that
  is JSON (it opens an object or an array, and does not parse to anything else) is
  reported as null.
\<close>

lemma token_round_trip:
  assumes "is_uuid qrKey"
  shows "(book d others now toDataURL qrKey userId vehicleId spotId areaId = (Inr b, d')
      \<longrightarrow> bk_qrKey b = qrKey
        \<and> bk_qrCode b = toDataURL ([CHR ''{'', CHR 0x22] @ ''qr_key''
                                      @ [CHR 0x22, CHR '':'', CHR 0x22] @ qrKey
                                      @ [CHR 0x22, CHR ''}''])
        \<and> (\<exists>row. own_reservations d' userId (bk_reservationId b) = [row]
               \<and> r_qr_key row = Some qrKey \<and> r_QR row = bk_qrCode b)
        \<and> (\<forall>details. get_booking d' JSON_parse userId (bk_reservationId b) = Inr details
               \<longrightarrow> bd_reservationId details = bk_reservationId b
                   \<and> bd_qrKey details = Some qrKey
                   \<and> bd_qrCode details = bk_qrCode b))
   \<and> (book d2 id now2 toDataURL2 qrKey userId2 vehicleId2 spotId2 areaId2 = (Inr b2, d2')
       \<and> (\<exists>u \<in> set (users d2). u_user_id u = userId2)
       \<and> (\<forall>ps \<in> set (parking_spot d2). \<exists>psec \<in> set (parking_section d2).
             sec_parking_section_id psec = spot_parking_section_id ps)
       \<and> (\<forall>psec \<in> set (parking_section d2). \<exists>pa \<in> set (parking_area d2).
             pa_parking_area_id pa = sec_parking_area_id psec)
       \<and> (\<forall>v \<in> set (vehicles d2). toLowerCase (v_vehicle_type v) = ''motorcycle''
             \<longrightarrow> v_vehicle_type v = ''motorcycle'')
      \<longrightarrow> (\<exists>details. get_booking d2' JSON_parse2 userId2 (bk_reservationId b2) = Inr details
              \<and> bd_reservationId details = bk_reservationId b2
              \<and> bd_qrKey details = Some qrKey))
   \<and> (k \<noteq> [] \<and> (startsWith (trim k) CHR ''{'' \<or> startsWith (trim k) CHR ''['')
       \<and> (\<forall>j. JSON_parse3 (trim k) = Some j \<longrightarrow> typeof_object j)
       \<and> get_booking d3 JSON_parse3 userId3 rid3 = Inr details3
       \<and> (\<forall>r \<in> set (reservations d3). r_reservation_id r = rid3 \<longrightarrow> r_qr_key r = Some k)
      \<longrightarrow> bd_qrKey details3 = None)"
proof (intro conjI impI allI)
  assume bk: "book d others now toDataURL qrKey userId vehicleId spotId areaId = (Inr b, d')"
  note row = book_success_row[OF bk]
  show "bk_qrKey b = qrKey" using row by simp
  show "bk_qrCode b = toDataURL ([CHR ''{'', CHR 0x22] @ ''qr_key''
                                      @ [CHR 0x22, CHR '':'', CHR 0x22] @ qrKey
                                      @ [CHR 0x22, CHR ''}''])"
    using row qr_payload_uuid[OF assms] by simp
  show "\<exists>row. own_reservations d' userId (bk_reservationId b) = [row]
               \<and> r_qr_key row = Some qrKey \<and> r_QR row = bk_qrCode b"
    using row by auto
  fix details
  assume g: "get_booking d' JSON_parse userId (bk_reservationId b) = Inr details"
  from row obtain r0 where r0: "own_reservations d' userId (bk_reservationId b) = [r0]"
      "r_reservation_id r0 = bk_reservationId b" "r_qr_key r0 = Some qrKey"
      "r_QR r0 = bk_qrCode b"
    by auto
  from get_booking_sound[OF g] r0
  have "bd_reservationId details = r_reservation_id r0
        \<and> bd_qrKey details = clean_qr_key JSON_parse (r_qr_key r0)
        \<and> bd_qrCode details = r_QR r0"
    by simp
  then show "bd_reservationId details = bk_reservationId b"
    "bd_qrKey details = Some qrKey" "bd_qrCode details = bk_qrCode b"
    using r0 clean_qr_key_uuid[OF assms] by simp_all
next
  assume a: "book d2 id now2 toDataURL2 qrKey userId2 vehicleId2 spotId2 areaId2 = (Inr b2, d2')
       \<and> (\<exists>u \<in> set (users d2). u_user_id u = userId2)
       \<and> (\<forall>ps \<in> set (parking_spot d2). \<exists>psec \<in> set (parking_section d2).
             sec_parking_section_id psec = spot_parking_section_id ps)
       \<and> (\<forall>psec \<in> set (parking_section d2). \<exists>pa \<in> set (parking_area d2).
             pa_parking_area_id pa = sec_parking_area_id psec)
       \<and> (\<forall>v \<in> set (vehicles d2). toLowerCase (v_vehicle_type v) = ''motorcycle''
             \<longrightarrow> v_vehicle_type v = ''motorcycle'')"
  then have bk: "book d2 id now2 toDataURL2 qrKey userId2 vehicleId2 spotId2 areaId2 = (Inr b2, d2')"
    by (rule conjunct1)
  from book_then_get_booking[OF bk, of JSON_parse2] a
  obtain details where g: "get_booking d2' JSON_parse2 userId2 (bk_reservationId b2) = Inr details"
    by blast
  from book_success_row[OF bk] obtain r0 where
    r0: "own_reservations d2' userId2 (bk_reservationId b2) = [r0]"
      "r_reservation_id r0 = bk_reservationId b2" "r_qr_key r0 = Some qrKey"
    by auto
  from get_booking_sound[OF g] r0
  have "bd_reservationId details = bk_reservationId b2 \<and> bd_qrKey details = Some qrKey"
    using clean_qr_key_uuid[OF assms] by simp
  then show "\<exists>details. get_booking d2' JSON_parse2 userId2 (bk_reservationId b2) = Inr details
              \<and> bd_reservationId details = bk_reservationId b2
              \<and> bd_qrKey details = Some qrKey"
    using g by blast
next
  assume a: "k \<noteq> [] \<and> (startsWith (trim k) CHR ''{'' \<or> startsWith (trim k) CHR ''['')
       \<and> (\<forall>j. JSON_parse3 (trim k) = Some j \<longrightarrow> typeof_object j)
       \<and> get_booking d3 JSON_parse3 userId3 rid3 = Inr details3
       \<and> (\<forall>r \<in> set (reservations d3). r_reservation_id r = rid3 \<longrightarrow> r_qr_key r = Some k)"
  then have g: "get_booking d3 JSON_parse3 userId3 rid3 = Inr details3" by blast
  from get_booking_sound[OF g] obtain r where
    r: "r \<in> set (own_reservations d3 userId3 rid3)"
      "bd_qrKey details3 = clean_qr_key JSON_parse3 (r_qr_key r)"
    by blast
  from r(1) have "r \<in> set (reservations d3)" "r_reservation_id r = rid3"
    by (simp_all add: own_reservations_def)
  with a have "r_qr_key r = Some k" by blast
  moreover have "clean_qr_key JSON_parse3 (Some k) = None"
    using a by (intro clean_qr_key_json) blast+
  ultimately show "bd_qrKey details3 = None" using r(2) by simp
qed

text \<open>
  User 1 books spot 5 with a car under a fresh key and then asks for the booking: the
  answer carries reservation 2 and the same key. The legacy reservation 1, whose stored
  key is the JSON payload, is answered with a null key.
\<close>

lemma token_round_trip_example:
  "is_uuid demo_uuid
   \<and> fst (book demo_db_spots id 500 demo_toDataURL demo_uuid 1 10 5 1)
       = Inr \<lparr> bk_reservationId = 2, bk_qrCode = demo_toDataURL (qr_payload demo_uuid),
                bk_qrKey = demo_uuid, bk_status = ''reserved'' \<rparr>
   \<and> map_sum id bd_reservationId
       (get_booking (snd (book demo_db_spots id 500 demo_toDataURL demo_uuid 1 10 5 1))
          demo_parse 1 2) = Inr 2
   \<and> map_sum id bd_qrKey
       (get_booking (snd (book demo_db_spots id 500 demo_toDataURL demo_uuid 1 10 5 1))
          demo_parse 1 2) = Inr (Some demo_uuid)
   \<and> map_sum id bd_qrKey (get_booking demo_db_legacy demo_parse 1 1) = Inr None"
proof -
  define b where "b = projr (fst (book demo_db_spots id 500 demo_toDataURL demo_uuid 1 10 5 1))"
  define d' where "d' = snd (book demo_db_spots id 500 demo_toDataURL demo_uuid 1 10 5 1)"
  define details3 where "details3 = projr (get_booking demo_db_legacy demo_parse 1 1)"
  have u: "is_uuid demo_uuid" by code_simp
  have res: "fst (book demo_db_spots id 500 demo_toDataURL demo_uuid 1 10 5 1)
       = Inr \<lparr> bk_reservationId = 2, bk_qrCode = demo_toDataURL (qr_payload demo_uuid),
                bk_qrKey = demo_uuid, bk_status = ''reserved'' \<rparr>"
    by code_simp
  have "fst (book demo_db_spots id 500 demo_toDataURL demo_uuid 1 10 5 1) = Inr b"
    unfolding b_def res by simp
  then have bk: "book demo_db_spots id 500 demo_toDataURL demo_uuid 1 10 5 1 = (Inr b, d')"
    unfolding d'_def by (metis prod.collapse)
  have rid: "bk_reservationId b = 2" unfolding b_def res by simp
  have h2: "\<exists>u \<in> set (users demo_db_spots). u_user_id u = 1" by code_simp
  have h3: "\<forall>ps \<in> set (parking_spot demo_db_spots). \<exists>psec \<in> set (parking_section demo_db_spots).
             sec_parking_section_id psec = spot_parking_section_id ps"
    by code_simp
  have h4: "\<forall>psec \<in> set (parking_section demo_db_spots). \<exists>pa \<in> set (parking_area demo_db_spots).
             pa_parking_area_id pa = sec_parking_area_id psec"
    by code_simp
  have h5: "\<forall>v \<in> set (vehicles demo_db_spots). toLowerCase (v_vehicle_type v) = ''motorcycle''
             \<longrightarrow> v_vehicle_type v = ''motorcycle''"
    by code_simp
  have k1: "qr_payload demo_uuid \<noteq> []" by (simp add: qr_payload_def)
  have k2: "startsWith (trim (qr_payload demo_uuid)) CHR ''{''
            \<or> startsWith (trim (qr_payload demo_uuid)) CHR ''[''"
    by code_simp
  have k3: "\<forall>j. demo_parse (trim (qr_payload demo_uuid)) = Some j \<longrightarrow> typeof_object j"
    by (auto simp: demo_parse_def split: if_splits)
  have k4: "get_booking demo_db_legacy demo_parse 1 1 = Inr details3"
    unfolding details3_def by code_simp
  have k5: "\<forall>r \<in> set (reservations demo_db_legacy).
              r_reservation_id r = 1 \<longrightarrow> r_qr_key r = Some (qr_payload demo_uuid)"
    by (simp add: demo_db_legacy_def)
  note t = token_round_trip [OF u, where ?d2.0 = demo_db_spots and ?now2.0 = 500
             and ?toDataURL2.0 = demo_toDataURL and ?userId2.0 = 1 and ?vehicleId2.0 = 10
             and ?spotId2.0 = 5 and ?areaId2.0 = 1 and ?b2.0 = b and ?d2' = d'
             and ?JSON_parse2.0 = demo_parse
             and k = "qr_payload demo_uuid" and ?JSON_parse3.0 = demo_parse
             and ?d3.0 = demo_db_legacy and ?userId3.0 = 1 and ?rid3.0 = 1
             and ?details3.0 = details3]
  from t[THEN conjunct2, THEN conjunct1] bk h2 h3 h4 h5
  obtain details where g: "get_booking d' demo_parse 1 (bk_reservationId b) = Inr details"
    and g1: "bd_reservationId details = bk_reservationId b"
    and g2: "bd_qrKey details = Some demo_uuid"
    by blast
  from t[THEN conjunct2, THEN conjunct2] k1 k2 k3 k4 k5
  have l: "bd_qrKey details3 = None" by blast
  show ?thesis
    using u res g g1 g2 l k4 unfolding rid d'_def by simp
qed

lemma digit_chars:
  "char_of (48::nat) = CHR ''0''" "char_of (49::nat) = CHR ''1''" "char_of (53::nat) = CHR ''5''"
  by code_simp+

lemma show_nat_examples:
  "show_nat 500000 = ''500000''" "show_nat 500001 = ''500001''" "show_nat (Suc 0) = ''1''"
  by (simp_all add: show_nat.simps digit_chars)

text \<open>
  C8. The booking route compares the vehicle type with \<open>motorcycle\<close> after lower-casing
  it; the booking-details route compares it as stored. Vehicle 13 of user 1 is stored
  with the type \<open>Motorcycle\<close>: the booking of a unit of the empty section A succeeds,
  answers reservation 1 with the fresh key and stores the key in that row; the request
  of the same user for the details of reservation 1 is answered 404, so the reservation
  the allocator created is not resolved.
\<close>

theorem book_then_booking_not_found:
  "map v_vehicle_type (vehicles demo_db_caps) = [''Motorcycle'']
   \<and> fst (book demo_db_caps id 500 demo_toDataURL demo_uuid 1 13 1 1)
       = Inr \<lparr> bk_reservationId = 1, bk_qrCode = demo_toDataURL (qr_payload demo_uuid),
                bk_qrKey = demo_uuid, bk_status = ''reserved'' \<rparr>
   \<and> map r_reservation_id
         (reservations (snd (book demo_db_caps id 500 demo_toDataURL demo_uuid 1 13 1 1))) = [1]
   \<and> map r_user_id
         (reservations (snd (book demo_db_caps id 500 demo_toDataURL demo_uuid 1 13 1 1))) = [1]
   \<and> map r_qr_key
         (reservations (snd (book demo_db_caps id 500 demo_toDataURL demo_uuid 1 13 1 1)))
       = [Some demo_uuid]
   \<and> get_booking (snd (book demo_db_caps id 500 demo_toDataURL demo_uuid 1 13 1 1))
         demo_parse 1 1
       = Inl (Failure 404 ''Booking not found or does not belong to user'' None)"
proof -
  have v: "map v_vehicle_type (vehicles demo_db_caps) = [''Motorcycle'']"
    by (simp add: demo_db_caps_def)
  have b: "fst (book demo_db_caps id 500 demo_toDataURL demo_uuid 1 13 1 1)
       = Inr \<lparr> bk_reservationId = 1, bk_qrCode = demo_toDataURL (qr_payload demo_uuid),
                bk_qrKey = demo_uuid, bk_status = ''reserved'' \<rparr>"
    by code_simp
  have s: "snd (book demo_db_caps id 500 demo_toDataURL demo_uuid 1 13 1 1) = demo_db_caps_booked"
    by code_simp
  have r1: "map r_reservation_id (reservations demo_db_caps_booked) = [1]"
    by (simp add: demo_db_caps_booked_def)
  have r2: "map r_user_id (reservations demo_db_caps_booked) = [1]"
    by (simp add: demo_db_caps_booked_def)
  have r3: "map r_qr_key (reservations demo_db_caps_booked) = [Some demo_uuid]"
    by (simp add: demo_db_caps_booked_def)
  have g: "get_booking demo_db_caps_booked demo_parse 1 1
           = Inl (Failure 404 ''Booking not found or does not belong to user'' None)"
    by code_simp
  show ?thesis
    unfolding s by (rule conjI [OF v conjI [OF b conjI [OF r1 conjI [OF r2 conjI [OF r3 g]]]]])
qed

text \<open>
  With the same vehicle stored as \<open>motorcycle\<close>, the same two requests resolve the
  reservation, with its key.
\<close>

lemma book_then_booking_found_lower_case:
  "map_sum id (\<lambda>details. (bd_reservationId details, bd_qrKey details))
     (get_booking (snd (book demo_db_lower id 500 demo_toDataURL demo_uuid 1 13 1 1))
        demo_parse 1 1)
     = Inr (1, Some demo_uuid)"
proof -
  have s: "snd (book demo_db_lower id 500 demo_toDataURL demo_uuid 1 13 1 1)
           = demo_db_caps_booked\<lparr> vehicles := vehicles demo_db_lower \<rparr>"
    by code_simp
  have g: "map_sum id (\<lambda>details. (bd_reservationId details, bd_qrKey details))
             (get_booking (demo_db_caps_booked\<lparr> vehicles := vehicles demo_db_lower \<rparr>)
                demo_parse 1 1)
           = Inr (1, Some demo_uuid)"
    by code_simp
  show ?thesis
    unfolding s by (rule g)
qed

text \<open>
  The section's own reserve route stores a token of another kind: the text
  \<open>CAP-<clock>-<user>\<close>, not an image, written from two readings of the clock, so the
  stored QR and key differ when the clock ticks between them. Its row has no vehicle, and
  the booking-details route answers 404 for it.
\<close>

lemma reserve_capacity_token:
  "map (\<lambda>r. (r_reservation_id r, r_QR r, r_qr_key r))
     (reservations (snd (reserve_capacity demo_db_caps 500 500000 500001 1 1)))
     = [(1, ''CAP-500000-1'', Some ''CAP-500001-1'')]
   \<and> get_booking (snd (reserve_capacity demo_db_caps 500 500000 500001 1 1)) demo_parse 1 1
       = Inl (Failure 404 ''Booking not found or does not belong to user'' None)"
proof -
  have s: "snd (reserve_capacity demo_db_caps 500 500000 500001 1 1)
     = demo_db_caps
         \<lparr> reservations :=
             [\<lparr> r_reservation_id = 1, r_user_id = 1, r_vehicle_id = None,
                 r_parking_spots_id = 1, r_parking_section_id = None,
                 r_spot_number = None, r_time_stamp = 500, r_start_time = Some 500,
                 r_end_time = Some 86900, r_booking_status = ''reserved'',
                 r_QR = ''CAP-500000-1'', r_qr_key = Some ''CAP-500001-1'' \<rparr>],
           parking_section :=
             [demo_section_A\<lparr> sec_parked_count := Some 0, sec_reserved_count := Some 1 \<rparr>] \<rparr>"
    by (simp add: reserve_capacity_def Let_def or0_def insertId_def update_where_def sql_add_def
          demo_db_caps_def demo_section_A_def show_nat_examples)
  show ?thesis
    unfolding s
    by (simp add: get_booking_def Let_def own_reservations_def vehicleCheck_of_def
          spot_details_def demo_db_caps_def demo_users_def demo_areas_def)
qed

text \<open>
  The guest walk-up route stores no key at all.
\<close>

lemma guest_assign_no_key:
  "map r_qr_key
     (reservations
        (snd (guest_assign demo_db_caps 500 ''g@x'' 9 1 ''A-1'' ''Gil'' ''P-1'' None None)))
     = [None]"
  by (simp add: guest_assign_def Let_def demo_db_caps_def demo_section_A_def)

subsection \<open>The reserve routes keep the sections within capacity\<close>

lemma same_key_same_row:
  "distinct (map key rows) \<Longrightarrow> x \<in> set rows \<Longrightarrow> y \<in> set rows \<Longrightarrow> key x = key y \<Longrightarrow> x = y"
  by (meson distinct_map inj_onD)

lemma reserve_capacity_within_capacity:
  assumes dist: "distinct (map sec_parking_section_id (parking_section d))"
    and inv: "\<forall>ps \<in> set (parking_section d). within_capacity ps"
    and ps': "ps' \<in> set (parking_section (snd (reserve_capacity d now dateNow dateNow2 userId sectionId)))"
  shows "within_capacity ps'"
proof (cases "filter (\<lambda>ps. sec_parking_section_id ps = sectionId
                            \<and> sec_vehicle_type ps = ''motorcycle'') (parking_section d)")
  case Nil
  then show ?thesis using inv ps' by (simp add: reserve_capacity_def)
next
  case (Cons sect rest)
  from filter_eq_ConsD[OF Cons] have sect: "sect \<in> set (parking_section d)"
    "sec_parking_section_id sect = sectionId"
    by simp_all
  show ?thesis
  proof (cases "max 0 (or0 (sec_capacity sect)
                  - (or0 (sec_parked_count sect) + or0 (sec_reserved_count sect))) \<le> 0")
    case True
    then show ?thesis using inv ps' Cons by (simp add: reserve_capacity_def Let_def)
  next
    case False
    then have room: "or0 (sec_parked_count sect) + or0 (sec_reserved_count sect) + 1
                      \<le> or0 (sec_capacity sect)"
      by simp
    have "ps' \<in> set (update_where (\<lambda>ps. sec_parking_section_id ps = sectionId)
              (\<lambda>ps. ps\<lparr> sec_reserved_count := sql_add (sec_reserved_count ps) 1 \<rparr>)
              (parking_section d))"
      using ps' Cons False by (simp add: reserve_capacity_def Let_def)
    then show ?thesis
    proof (rule update_where_all[rotated 2])
      fix x assume x: "x \<in> set (parking_section d)" "sec_parking_section_id x = sectionId"
      then have "x = sect" using same_key_same_row[OF dist x(1) sect(1)] sect(2) by simp
      then show "within_capacity (x\<lparr> sec_reserved_count := sql_add (sec_reserved_count x) 1 \<rparr>)"
        using room by (cases "sec_reserved_count sect")
                      (simp_all add: within_capacity_def sql_add_def or0_def)
    next
      fix x assume "x \<in> set (parking_section d)"
      then show "within_capacity x" using inv by simp
    qed
  qed
qed

lemma bookMotorcycleSection_within_capacity:
  assumes dist: "distinct (map sec_parking_section_id (parking_section d))"
    and inv: "\<forall>ps \<in> set (parking_section d). within_capacity ps"
    and ps': "ps' \<in> set (parking_section
                (snd (bookMotorcycleSection d now toDataURL qrKey userId vehicleId spotId areaId)))"
  shows "within_capacity ps'"
proof (cases "filter (\<lambda>ps. sec_parking_section_id ps = spotId
                        \<and> sec_parking_area_id ps = areaId
                        \<and> sec_vehicle_type ps = ''motorcycle''
                        \<and> sec_section_mode ps = ''capacity_only''
                        \<and> sql_has_capacity ps
                        \<and> sql_not_unavailable ps) (parking_section d)")
  case Nil
  then show ?thesis using inv ps' by (simp add: bookMotorcycleSection_def)
next
  case (Cons sect rest)
  from filter_eq_ConsD[OF Cons] have sect: "sect \<in> set (parking_section d)"
    "sql_has_capacity sect"
    by simp_all
  have "ps' \<in> set (update_where
            (\<lambda>ps. sec_parking_section_id ps = sec_parking_section_id sect)
            (\<lambda>ps. ps\<lparr> sec_reserved_count := sql_add (sec_reserved_count ps) 1 \<rparr>)
            (parking_section d))"
    using ps' by (simp add: bookMotorcycleSection_success[OF Cons])
  then show ?thesis
  proof (rule update_where_all[rotated 2])
    fix x assume x: "x \<in> set (parking_section d)"
      "sec_parking_section_id x = sec_parking_section_id sect"
    then have "x = sect" using same_key_same_row[OF dist x(1) sect(1)] by simp
    then show "within_capacity (x\<lparr> sec_reserved_count := sql_add (sec_reserved_count x) 1 \<rparr>)"
      using sect(2)
      by (auto simp: within_capacity_def sql_add_def or0_def sql_has_capacity_def
               split: option.splits)
  next
    fix x assume "x \<in> set (parking_section d)"
    then show "within_capacity x" using inv by simp
  qed
qed

end
